theory Spec2Isabelle
  imports Complex_Main
begin

section \<open>Data model of the LineGraph component\<close>

text \<open>
  \<^verbatim>\<open>type Scalar = number | Date\<close>. A JavaScript number is idealised as a real: the
  arithmetic of this model is exact, where the code computes in IEEE doubles. So the
  model has no rounding, no NaN and no infinities, and whatever is proved of a computed
  number below is proved of the exact result, from which the code's double can differ by
  rounding. (The numbers that are not finite have a model of their own further down.) A
  Date is its time value, a whole number of milliseconds since the epoch, which is what
  \<^verbatim>\<open>valueOf\<close> and every comparison of the source read.
\<close>

datatype Scalar = Num real | Date int

fun valueOf :: "Scalar \<Rightarrow> real" where
  "valueOf (Num r) = r"
| "valueOf (Date t) = of_int t"

text \<open>The time value that \<^verbatim>\<open>new Date(t)\<close> keeps of a number: its integer part, towards
  zero. (Beyond 8.64e15 milliseconds the Date is invalid; such times are not modelled.)\<close>

definition toInteger :: "real \<Rightarrow> int" where
  "toInteger t = (if 0 \<le> t then \<lfloor>t\<rfloor> else \<lceil>t\<rceil>)"

fun instanceofDate :: "Scalar \<Rightarrow> bool" where
  "instanceofDate (Num r) = False"
| "instanceofDate (Date t) = True"

text \<open>The only exception the component's own code can raise: \<^verbatim>\<open>reduce\<close> of an empty
  array without an initial value.\<close>

datatype error = TypeError

record Datum =
  datum_x :: Scalar
  datum_y :: Scalar

record PixelOffset =
  horizontal :: real
  vertical :: real

text \<open>\<^verbatim>\<open>XAxisLabel\<close> and \<^verbatim>\<open>YAxisLabel\<close>: a domain value and its text.\<close>

record AxisLabel =
  label_value :: Scalar
  label_text :: string

record PointData =
  pd_x :: Scalar
  pd_y :: Scalar
  pd_pixelX :: real
  pd_pixelY :: real

record GridLine =
  p1 :: PointData
  p2 :: PointData

text \<open>Of \<^verbatim>\<open>TextProps\<close> only the position, which the component computes, is kept.\<close>

record TextProps =
  text_x :: real
  text_y :: real

record IAxisTick =
  tick_x :: Scalar
  tick_y :: Scalar
  tick_pixelX :: real
  tick_pixelY :: real
  tick_text :: string
  textProps :: TextProps
  gridLine :: GridLine

record GridLineProps =
  startExtendPixels :: "real option"
  endExtendPixels :: "real option"

datatype NiceProp = NiceTrue | NiceCount real

datatype Labels = LabelArray "AxisLabel list" | LabelCount real

datatype PixelOffsetProp =
  OffsetObject PixelOffset
| OffsetFunction "AxisLabel \<Rightarrow> nat \<Rightarrow> PixelOffset"

datatype XLocation = Top | Bottom
datatype YLocation = Left | Right

datatype XPixelY = XLocationName XLocation | XPixelNumber real
datatype YPixelX = YLocationName YLocation | YPixelNumber real

record CommonAxisLabelDecorations =
  formatSpecifier :: "string option"
  gridLineProps :: "GridLineProps option"
  nice :: "NiceProp option"

record XAxisLabelDecoration = CommonAxisLabelDecorations +
  x_labels :: "Labels option"
  x_labelPixelOffset :: "PixelOffsetProp option"
  pixelY :: "XPixelY option"
  visibleX :: "(Scalar \<times> Scalar) option"

record YAxisLabelDecoration = CommonAxisLabelDecorations +
  y_labels :: "Labels option"
  y_labelPixelOffset :: "PixelOffsetProp option"
  pixelX :: "YPixelX option"
  visibleY :: "(Scalar \<times> Scalar) option"

text \<open>The props that reach the coordinate pipeline (styling props, curve, title and
  children only decorate the output).\<close>

record LineGraphProps =
  data :: "Datum list"
  width :: real
  height :: real
  paddingTop :: "real option"
  paddingRight :: "real option"
  paddingBottom :: "real option"
  paddingLeft :: "real option"
  xAxis :: "XAxisLabelDecoration option"
  yAxis :: "YAxisLabelDecoration option"

section \<open>Scales of the scaling library\<close>

datatype ScaleKind = ScaleLinear | ScaleTime

record Scale =
  scale_kind :: ScaleKind
  scale_domain :: "real \<times> real"
  scale_range :: "real \<times> real"

text \<open>
  The scaling library (d3-scale) is an external collaborator of the component and is not
  under src/. The spec describes its Scale as "a monotonic function mapping a domain
  scalar to a pixel coordinate, invertible, optionally niced to round domain bounds",
  "time-based or linear", which "maps domain to the pixel range". Both kinds are modelled
  as the affine map that sends the two domain bounds to the two range bounds, composed as
  the library composes it: normalise over one interval, interpolate over the other.
\<close>

text \<open>Modelled from the spec: the library's \<^verbatim>\<open>normalize(a, b)\<close> is not under src/. The
  position of \<open>v\<close> in the interval from \<open>a\<close> to \<open>b\<close>, as a fraction; on a collapsed
  interval the library returns the constant 1/2.\<close>

definition normalize :: "real \<Rightarrow> real \<Rightarrow> real \<Rightarrow> real" where
  "normalize a b v = (if b - a \<noteq> 0 then (v - a) / (b - a) else 1 / 2)"

text \<open>Modelled from the spec: the library's number interpolator is not under src/. The
  point at fraction \<open>t\<close> of the way from \<open>a\<close> to \<open>b\<close>, in exact arithmetic: the
  library's double can differ from it in the last digits.\<close>

definition interpolateNumber :: "real \<Rightarrow> real \<Rightarrow> real \<Rightarrow> real" where
  "interpolateNumber a b t = a * (1 - t) + b * t"

text \<open>Modelled from the spec: the library's two-point map \<^verbatim>\<open>bimap\<close> is not under src/.
  A descending first interval is turned round together with the second.\<close>

definition bimap :: "real \<times> real \<Rightarrow> real \<times> real \<Rightarrow> real \<Rightarrow> real" where
  "bimap d r v =
     (if snd d < fst d
      then interpolateNumber (snd r) (fst r) (normalize (snd d) (fst d) v)
      else interpolateNumber (fst r) (snd r) (normalize (fst d) (snd d) v))"

text \<open>Modelled from the spec: applying a scale, \<^verbatim>\<open>scale(v)\<close>, is the library's and not
  under src/. Domain to range, on the numeric value of the argument; no clamping.\<close>

definition scale_apply :: "Scale \<Rightarrow> Scalar \<Rightarrow> real" where
  "scale_apply s v = bimap (scale_domain s) (scale_range s) (valueOf v)"

text \<open>Modelled from the spec: \<^verbatim>\<open>scale.invert(p)\<close> is the library's and not under src/.
  Range to domain; a linear scale returns the number, a time scale \<^verbatim>\<open>new Date\<close> of it,
  which keeps whole milliseconds only.\<close>

definition scale_invert :: "Scale \<Rightarrow> real \<Rightarrow> Scalar" where
  "scale_invert s p =
     (let v = bimap (scale_range s) (scale_domain s) p
      in case scale_kind s of ScaleLinear \<Rightarrow> Num v | ScaleTime \<Rightarrow> Date (toInteger v))"

text \<open>Modelled from the spec: the constructors \<^verbatim>\<open>scaleLinear().domain(d).range(r)\<close> and
  \<^verbatim>\<open>scaleTime().domain(d).range(r)\<close> are the library's and not under src/. A linear scale
  keeps each domain bound by its numeric value; a time scale keeps it as a Date, so a
  numeric bound loses its fraction of a millisecond.\<close>

definition make_scale :: "ScaleKind \<Rightarrow> Scalar \<times> Scalar \<Rightarrow> real \<times> real \<Rightarrow> Scale" where
  "make_scale k d r =
     \<lparr>scale_kind = k,
      scale_domain =
        (case k of
           ScaleLinear \<Rightarrow> (valueOf (fst d), valueOf (snd d))
         | ScaleTime \<Rightarrow> (of_int (toInteger (valueOf (fst d))), of_int (toInteger (valueOf (snd d))))),
      scale_range = r\<rparr>"

text \<open>A calendar interval of the library, as its two rounding functions.\<close>

record TimeInterval =
  interval_floor :: "real \<Rightarrow> real"
  interval_ceil :: "real \<Rightarrow> real"

text \<open>
  What the component takes from the scaling library without looking inside, as
  parameters of the model: the choice of a human-friendly step for a linear domain and a
  tick count (\<^verbatim>\<open>tickIncrement\<close>: a positive step, or a negative one standing for the
  reciprocal of its absolute value), the choice of a calendar interval for a time domain
  and a tick count, the tick values of a scale for a count, and the tick formatter of a
  scale for a count and a format specifier.
\<close>

record D3 =
  tickIncrement :: "real \<Rightarrow> real \<Rightarrow> real \<Rightarrow> real"
  timeTickInterval :: "real \<Rightarrow> real \<Rightarrow> real \<Rightarrow> TimeInterval option"
  scale_ticks :: "Scale \<Rightarrow> real \<Rightarrow> Scalar list"
  scale_tickFormat :: "Scale \<Rightarrow> real \<Rightarrow> string option \<Rightarrow> Scalar \<Rightarrow> string"

text \<open>Modelled from the spec: the rounding inside the library's \<^verbatim>\<open>nice\<close> is not under
  src/. The spec's nicing is "rounding scale domain bounds to human-friendly increments":
  down to a multiple of the step.\<close>

definition round_down :: "real \<Rightarrow> real \<Rightarrow> real" where
  "round_down step v =
     (if step > 0 then of_int \<lfloor>v / step\<rfloor> * step
      else if step < 0 then of_int \<lceil>v * step\<rceil> / step
      else v)"

text \<open>Modelled from the spec: as \<open>round_down\<close>, up to a multiple of the step.\<close>

definition round_up :: "real \<Rightarrow> real \<Rightarrow> real" where
  "round_up step v =
     (if step > 0 then of_int \<lceil>v / step\<rceil> * step
      else if step < 0 then of_int \<lfloor>v * step\<rfloor> / step
      else v)"

text \<open>Modelled from the spec: \<^verbatim>\<open>nice(count)\<close> of a linear scale is the library's and not
  under src/. The lower bound is rounded down and the upper bound up to a multiple of the
  step, the step is chosen again for the rounded bounds and the rounding repeated; a step
  of 0 leaves the domain as it was. A descending domain stays descending.\<close>

definition linear_nice :: "(real \<Rightarrow> real \<Rightarrow> real \<Rightarrow> real) \<Rightarrow> real \<Rightarrow> real \<times> real \<Rightarrow> real \<times> real" where
  "linear_nice incr count d =
     (let descending = snd d < fst d;
          start = (if descending then snd d else fst d);
          stop = (if descending then fst d else snd d);
          step = incr start stop count;
          start1 = round_down step start;
          stop1 = round_up step stop;
          step1 = (if step \<noteq> 0 then incr start1 stop1 count else step)
      in if step1 = 0 then d
         else if descending then (round_up step1 stop1, round_down step1 start1)
         else (round_down step1 start1, round_up step1 stop1))"

text \<open>Modelled from the spec: \<^verbatim>\<open>nice\<close> of a time scale for a calendar interval is the
  library's and not under src/. The lower bound goes to the interval's floor, the upper
  bound to its ceiling.\<close>

definition time_nice :: "TimeInterval \<Rightarrow> real \<times> real \<Rightarrow> real \<times> real" where
  "time_nice i d =
     (if snd d < fst d then (interval_ceil i (fst d), interval_floor i (snd d))
      else (interval_floor i (fst d), interval_ceil i (snd d)))"

text \<open>Modelled from the spec: \<^verbatim>\<open>scale.nice(count)\<close> is the library's and not under src/.
  An absent count is 10; a time scale for which the library finds no interval is left as
  it is.\<close>

definition scale_nice :: "D3 \<Rightarrow> Scale \<Rightarrow> real option \<Rightarrow> Scale" where
  "scale_nice lib s count =
     (let c = (case count of None \<Rightarrow> 10 | Some n \<Rightarrow> n)
      in case scale_kind s of
           ScaleLinear \<Rightarrow> s\<lparr>scale_domain := linear_nice (tickIncrement lib) c (scale_domain s)\<rparr>
         | ScaleTime \<Rightarrow>
             (case timeTickInterval lib (fst (scale_domain s)) (snd (scale_domain s)) c of
                None \<Rightarrow> s
              | Some i \<Rightarrow> s\<lparr>scale_domain := time_nice i (scale_domain s)\<rparr>))"

section \<open>The component: domains and scales\<close>

text \<open>\<^verbatim>\<open>array.reduce(f)\<close> without an initial value raises on an empty array.\<close>

definition reduce :: "('a \<Rightarrow> 'a \<Rightarrow> 'a) \<Rightarrow> 'a list \<Rightarrow> error + 'a" where
  "reduce f array = (case array of [] \<Rightarrow> Inl TypeError | a # rest \<Rightarrow> Inr (foldl f a rest))"

text \<open>\<^verbatim>\<open>min\<close> and \<^verbatim>\<open>max\<close> of the source (renamed: HOL has constants of these names).
  \<^verbatim>\<open>a < b\<close> and \<^verbatim>\<open>a > b\<close> compare numbers and Dates by their numeric value.\<close>

definition min_arr :: "Scalar list \<Rightarrow> error + Scalar" where
  "min_arr array = reduce (\<lambda>a b. if valueOf a < valueOf b then a else b) array"

definition max_arr :: "Scalar list \<Rightarrow> error + Scalar" where
  "max_arr array = reduce (\<lambda>a b. if valueOf a > valueOf b then a else b) array"

definition DEFAULT_PADDING_TOP :: real where "DEFAULT_PADDING_TOP = 10"
definition DEFAULT_PADDING_RIGHT :: real where "DEFAULT_PADDING_RIGHT = 10"
definition DEFAULT_PADDING_BOTTOM :: real where "DEFAULT_PADDING_BOTTOM = 20"
definition DEFAULT_PADDING_LEFT :: real where "DEFAULT_PADDING_LEFT = 20"

text \<open>A destructuring default, as in \<^verbatim>\<open>paddingTop = DEFAULT_PADDING_TOP\<close>: it applies when
  the prop is absent.\<close>

definition or_default :: "'a option \<Rightarrow> 'a \<Rightarrow> 'a" where
  "or_default v d = (case v of None \<Rightarrow> d | Some a \<Rightarrow> a)"

definition chartBottomPixel :: "LineGraphProps \<Rightarrow> real" where
  "chartBottomPixel p = height p - or_default (paddingBottom p) DEFAULT_PADDING_BOTTOM"

definition chartLeftPixel :: "LineGraphProps \<Rightarrow> real" where
  "chartLeftPixel p = or_default (paddingLeft p) DEFAULT_PADDING_LEFT"

definition chartTopPixel :: "LineGraphProps \<Rightarrow> real" where
  "chartTopPixel p = or_default (paddingTop p) DEFAULT_PADDING_TOP"

definition chartRightPixel :: "LineGraphProps \<Rightarrow> real" where
  "chartRightPixel p = width p - or_default (paddingRight p) DEFAULT_PADDING_RIGHT"

datatype AxisKey = KeyX | KeyY

text \<open>\<^verbatim>\<open>e[key]\<close> for \<^verbatim>\<open>key: 'x' | 'y'\<close>.\<close>

definition datum_get :: "AxisKey \<Rightarrow> Datum \<Rightarrow> Scalar" where
  "datum_get key e = (case key of KeyX \<Rightarrow> datum_x e | KeyY \<Rightarrow> datum_y e)"

definition defaultDomain :: "Datum list \<Rightarrow> AxisKey \<Rightarrow> error + Scalar \<times> Scalar" where
  "defaultDomain dat key =
     (let values = map (datum_get key) dat
      in case min_arr values of
           Inl e \<Rightarrow> Inl e
         | Inr lowest \<Rightarrow>
             (case max_arr values of
                Inl e \<Rightarrow> Inl e
              | Inr highest \<Rightarrow> Inr (lowest, highest)))"

text \<open>\<^verbatim>\<open>xAxis?.visibleX || defaultDomain('x') || []\<close>: an array is truthy, so a supplied
  range is taken and \<^verbatim>\<open>defaultDomain\<close> is not called; the last alternative is never
  reached, since \<^verbatim>\<open>defaultDomain\<close> returns an array or raises.\<close>

definition xDomain :: "LineGraphProps \<Rightarrow> error + Scalar \<times> Scalar" where
  "xDomain p =
     (case Option.bind (xAxis p) visibleX of
        Some v \<Rightarrow> Inr v
      | None \<Rightarrow> defaultDomain (data p) KeyX)"

definition yDomain :: "LineGraphProps \<Rightarrow> error + Scalar \<times> Scalar" where
  "yDomain p =
     (case Option.bind (yAxis p) visibleY of
        Some v \<Rightarrow> Inr v
      | None \<Rightarrow> defaultDomain (data p) KeyY)"

text \<open>\<^verbatim>\<open>if (!nice) return _without\<close>: an absent setting and the number 0 are falsy.\<close>

definition maybeWithNice :: "D3 \<Rightarrow> Scale \<Rightarrow> NiceProp option \<Rightarrow> Scale" where
  "maybeWithNice lib without n =
     (case n of
        None \<Rightarrow> without
      | Some NiceTrue \<Rightarrow> scale_nice lib without None
      | Some (NiceCount c) \<Rightarrow> if c = 0 then without else scale_nice lib without (Some c))"

text \<open>\<^verbatim>\<open>data[0] && data[0].x instanceof Date ? scaleTime() : scaleLinear()\<close>.\<close>

definition scaleKindFor :: "Datum list \<Rightarrow> AxisKey \<Rightarrow> ScaleKind" where
  "scaleKindFor dat key =
     (case dat of
        [] \<Rightarrow> ScaleLinear
      | d0 # rest \<Rightarrow> if instanceofDate (datum_get key d0) then ScaleTime else ScaleLinear)"

definition xBeforeNice :: "LineGraphProps \<Rightarrow> error + Scale" where
  "xBeforeNice p =
     (case xDomain p of
        Inl e \<Rightarrow> Inl e
      | Inr d \<Rightarrow> Inr (make_scale (scaleKindFor (data p) KeyX) d (chartLeftPixel p, chartRightPixel p)))"

definition xScale :: "D3 \<Rightarrow> LineGraphProps \<Rightarrow> error + Scale" where
  "xScale lib p =
     (case xBeforeNice p of
        Inl e \<Rightarrow> Inl e
      | Inr s \<Rightarrow> Inr (maybeWithNice lib s (Option.bind (xAxis p) nice)))"

definition yBeforeNice :: "LineGraphProps \<Rightarrow> error + Scale" where
  "yBeforeNice p =
     (case yDomain p of
        Inl e \<Rightarrow> Inl e
      | Inr d \<Rightarrow> Inr (make_scale (scaleKindFor (data p) KeyY) d (chartBottomPixel p, chartTopPixel p)))"

definition yScale :: "D3 \<Rightarrow> LineGraphProps \<Rightarrow> error + Scale" where
  "yScale lib p =
     (case yBeforeNice p of
        Inl e \<Rightarrow> Inl e
      | Inr s \<Rightarrow> Inr (maybeWithNice lib s (Option.bind (yAxis p) nice)))"

text \<open>The scales in the order the component builds them: the x domain is inferred
  first, so its failure is the one that propagates.\<close>

definition scales :: "D3 \<Rightarrow> LineGraphProps \<Rightarrow> error + Scale \<times> Scale" where
  "scales lib p =
     (case xScale lib p of
        Inl e \<Rightarrow> Inl e
      | Inr xs \<Rightarrow> (case yScale lib p of Inl e \<Rightarrow> Inl e | Inr ys \<Rightarrow> Inr (xs, ys)))"

text \<open>\<^verbatim>\<open>dotData\<close>: the centre \<^verbatim>\<open>(cx, cy)\<close> of each datum's dot.\<close>

definition dotData :: "D3 \<Rightarrow> LineGraphProps \<Rightarrow> error + (real \<times> real) list" where
  "dotData lib p =
     (case scales lib p of
        Inl e \<Rightarrow> Inl e
      | Inr (xs, ys) \<Rightarrow>
          Inr (map (\<lambda>d. (scale_apply xs (datum_x d), scale_apply ys (datum_y d))) (data p)))"

section \<open>The component: ticks, labels and gridlines\<close>

text \<open>\<^verbatim>\<open>value || fallback\<close> on an optional number: absent and 0 are both falsy.\<close>

definition number_or :: "real option \<Rightarrow> real \<Rightarrow> real" where
  "number_or v d = (case v of None \<Rightarrow> d | Some a \<Rightarrow> if a = 0 then d else a)"

definition DEFAULT_XAXIS_TOP_EXTEND :: real where "DEFAULT_XAXIS_TOP_EXTEND = 0"
definition DEFAULT_XAXIS_BOTTOM_EXTEND :: real where "DEFAULT_XAXIS_BOTTOM_EXTEND = 0"
definition DEFAULT_YAXIS_LEFT_EXTEND :: real where "DEFAULT_YAXIS_LEFT_EXTEND = 0"
definition DEFAULT_YAXIS_RIGHT_EXTEND :: real where "DEFAULT_YAXIS_RIGHT_EXTEND = 0"

definition DEFAULT_OFFSET :: PixelOffset where
  "DEFAULT_OFFSET = \<lparr>horizontal = 0, vertical = 0\<rparr>"

definition xTickCount :: "LineGraphProps \<Rightarrow> real" where
  "xTickCount p =
     (case Option.bind (xAxis p) x_labels of
        Some (LabelCount n) \<Rightarrow> n
      | _ \<Rightarrow> of_nat (length (data p)))"

definition yTickCount :: "LineGraphProps \<Rightarrow> real" where
  "yTickCount p =
     (case Option.bind (yAxis p) y_labels of
        Some (LabelCount n) \<Rightarrow> n
      | _ \<Rightarrow> of_nat (length (data p)))"

definition xFormatFunction :: "D3 \<Rightarrow> LineGraphProps \<Rightarrow> Scale \<Rightarrow> Scalar \<Rightarrow> string" where
  "xFormatFunction lib p xs =
     scale_tickFormat lib xs (xTickCount p) (Option.bind (xAxis p) formatSpecifier)"

definition yFormatFunction :: "D3 \<Rightarrow> LineGraphProps \<Rightarrow> Scale \<Rightarrow> Scalar \<Rightarrow> string" where
  "yFormatFunction lib p ys =
     scale_tickFormat lib ys (yTickCount p) (Option.bind (yAxis p) formatSpecifier)"

definition xStartExtend :: "LineGraphProps \<Rightarrow> real" where
  "xStartExtend p =
     number_or (Option.bind (Option.bind (xAxis p) gridLineProps) startExtendPixels)
       DEFAULT_XAXIS_TOP_EXTEND"

definition xEndExtend :: "LineGraphProps \<Rightarrow> real" where
  "xEndExtend p =
     number_or (Option.bind (Option.bind (xAxis p) gridLineProps) endExtendPixels)
       DEFAULT_XAXIS_BOTTOM_EXTEND"

definition yStartExtend :: "LineGraphProps \<Rightarrow> real" where
  "yStartExtend p =
     number_or (Option.bind (Option.bind (yAxis p) gridLineProps) startExtendPixels)
       DEFAULT_YAXIS_LEFT_EXTEND"

definition yEndExtend :: "LineGraphProps \<Rightarrow> real" where
  "yEndExtend p =
     number_or (Option.bind (Option.bind (yAxis p) gridLineProps) endExtendPixels)
       DEFAULT_YAXIS_RIGHT_EXTEND"

text \<open>The gridline of an x tick: each end is a pixel taken through \<^verbatim>\<open>yScale.invert\<close>
  and back through \<^verbatim>\<open>yScale\<close>.\<close>

definition xTickToGridLine :: "LineGraphProps \<Rightarrow> Scale \<Rightarrow> Scalar \<Rightarrow> real \<Rightarrow> GridLine" where
  "xTickToGridLine p ys x' pixX =
     (let y1 = scale_invert ys (chartTopPixel p - xStartExtend p);
          pixelY1 = scale_apply ys y1;
          y2 = scale_invert ys (chartBottomPixel p + xEndExtend p);
          pixelY2 = scale_apply ys y2
      in \<lparr>p1 = \<lparr>pd_x = x', pd_y = y1, pd_pixelX = pixX, pd_pixelY = pixelY1\<rparr>,
          p2 = \<lparr>pd_x = x', pd_y = y2, pd_pixelX = pixX, pd_pixelY = pixelY2\<rparr>\<rparr>)"

definition yTickToGridLine :: "LineGraphProps \<Rightarrow> Scale \<Rightarrow> Scalar \<Rightarrow> real \<Rightarrow> GridLine" where
  "yTickToGridLine p xs y' pixY =
     (let x1 = scale_invert xs (chartLeftPixel p - yStartExtend p);
          pixelX0 = scale_apply xs x1;
          x2 = scale_invert xs (chartRightPixel p + yEndExtend p);
          pixelX1 = scale_apply xs x2
      in \<lparr>p1 = \<lparr>pd_x = x1, pd_y = y', pd_pixelX = pixelX0, pd_pixelY = pixY\<rparr>,
          p2 = \<lparr>pd_x = x2, pd_y = y', pd_pixelX = pixelX1, pd_pixelY = pixY\<rparr>\<rparr>)"

definition xLocationToPixelY :: "LineGraphProps \<Rightarrow> XLocation \<Rightarrow> real" where
  "xLocationToPixelY p location =
     (case location of Top \<Rightarrow> chartTopPixel p - 4 | Bottom \<Rightarrow> chartBottomPixel p + 12)"

text \<open>\<^verbatim>\<open>xAxis?.pixelY || 'bottom'\<close>: the two location names are non-empty strings, hence
  truthy; of the numbers, 0 is falsy.\<close>

definition xAxisLocation :: "LineGraphProps \<Rightarrow> XPixelY" where
  "xAxisLocation p =
     (case Option.bind (xAxis p) pixelY of
        None \<Rightarrow> XLocationName Bottom
      | Some (XLocationName l) \<Rightarrow> XLocationName l
      | Some (XPixelNumber n) \<Rightarrow> if n = 0 then XLocationName Bottom else XPixelNumber n)"

definition defaultXAxisPixelY :: "LineGraphProps \<Rightarrow> real" where
  "defaultXAxisPixelY p =
     (case xAxisLocation p of
        XPixelNumber n \<Rightarrow> n
      | XLocationName l \<Rightarrow> xLocationToPixelY p l)"

definition yLocationToPixelX :: "LineGraphProps \<Rightarrow> YLocation \<Rightarrow> real" where
  "yLocationToPixelX p location =
     (case location of Left \<Rightarrow> chartLeftPixel p - 4 | Right \<Rightarrow> chartRightPixel p + 4)"

definition yAxisLocation :: "LineGraphProps \<Rightarrow> YPixelX" where
  "yAxisLocation p =
     (case Option.bind (yAxis p) pixelX of
        None \<Rightarrow> YLocationName Left
      | Some (YLocationName l) \<Rightarrow> YLocationName l
      | Some (YPixelNumber n) \<Rightarrow> if n = 0 then YLocationName Left else YPixelNumber n)"

definition defaultYAxisPixelX :: "LineGraphProps \<Rightarrow> real" where
  "defaultYAxisPixelX p =
     (case yAxisLocation p of
        YPixelNumber n \<Rightarrow> n
      | YLocationName l \<Rightarrow> yLocationToPixelX p l)"

text \<open>The position of a label's text element: the tick's pixel plus the offset.\<close>

definition xTextLabelProps :: "real \<Rightarrow> real \<Rightarrow> PixelOffset \<Rightarrow> TextProps" where
  "xTextLabelProps pixX pixY offset =
     \<lparr>text_x = pixX + horizontal offset, text_y = pixY + vertical offset\<rparr>"

definition yTextLabelProps :: "real \<Rightarrow> real \<Rightarrow> PixelOffset \<Rightarrow> TextProps" where
  "yTextLabelProps pixX pixY offset =
     \<lparr>text_x = pixX + horizontal offset, text_y = pixY + vertical offset\<rparr>"

definition xLabelToAxisTick ::
  "LineGraphProps \<Rightarrow> Scale \<Rightarrow> Scale \<Rightarrow> AxisLabel \<Rightarrow> PixelOffset \<Rightarrow> IAxisTick" where
  "xLabelToAxisTick p xs ys label offset =
     (let pixY = defaultXAxisPixelY p;
          y' = scale_invert ys pixY;
          pixX = scale_apply xs (label_value label);
          x' = label_value label
      in \<lparr>tick_x = x', tick_y = y', tick_pixelX = pixX, tick_pixelY = pixY,
          tick_text = label_text label,
          textProps = xTextLabelProps pixX pixY offset,
          gridLine = xTickToGridLine p ys x' pixX\<rparr>)"

definition yLabelToAxisTick ::
  "LineGraphProps \<Rightarrow> Scale \<Rightarrow> Scale \<Rightarrow> AxisLabel \<Rightarrow> PixelOffset \<Rightarrow> IAxisTick" where
  "yLabelToAxisTick p xs ys label offset =
     (let pixX = defaultYAxisPixelX p;
          x' = scale_invert xs pixX;
          pixY = scale_apply ys (label_value label);
          y' = label_value label
      in \<lparr>tick_x = x', tick_y = y', tick_pixelX = pixX, tick_pixelY = pixY,
          tick_text = label_text label,
          textProps = yTextLabelProps pixX pixY offset,
          gridLine = yTickToGridLine p xs y' pixY\<rparr>)"

text \<open>The offset prop is a function of the label and its index, an offset object, or
  absent.\<close>

definition xLabelToPixelOffset :: "AxisLabel \<Rightarrow> nat \<Rightarrow> PixelOffsetProp option \<Rightarrow> PixelOffset" where
  "xLabelToPixelOffset label index pixelOffset =
     (case pixelOffset of
        Some (OffsetFunction f) \<Rightarrow> f label index
      | Some (OffsetObject offset) \<Rightarrow> offset
      | None \<Rightarrow> DEFAULT_OFFSET)"

definition yLabelToPixelOffset :: "AxisLabel \<Rightarrow> nat \<Rightarrow> PixelOffsetProp option \<Rightarrow> PixelOffset" where
  "yLabelToPixelOffset label index pixelOffset =
     (case pixelOffset of
        Some (OffsetFunction f) \<Rightarrow> f label index
      | Some (OffsetObject offset) \<Rightarrow> offset
      | None \<Rightarrow> DEFAULT_OFFSET)"

definition xTickToAxisTick ::
  "D3 \<Rightarrow> LineGraphProps \<Rightarrow> Scale \<Rightarrow> Scale \<Rightarrow> Scalar \<Rightarrow> nat \<Rightarrow> PixelOffsetProp option \<Rightarrow> IAxisTick" where
  "xTickToAxisTick lib p xs ys tick index offsetProp =
     (let txt = xFormatFunction lib p xs tick;
          tempLabel = \<lparr>label_value = tick, label_text = txt\<rparr>
      in xLabelToAxisTick p xs ys tempLabel (xLabelToPixelOffset tempLabel index offsetProp))"

definition yTickToAxisTick ::
  "D3 \<Rightarrow> LineGraphProps \<Rightarrow> Scale \<Rightarrow> Scale \<Rightarrow> Scalar \<Rightarrow> nat \<Rightarrow> PixelOffsetProp option \<Rightarrow> IAxisTick" where
  "yTickToAxisTick lib p xs ys tick index offsetProp =
     (let txt = yFormatFunction lib p ys tick;
          tempLabel = \<lparr>label_value = tick, label_text = txt\<rparr>
      in yLabelToAxisTick p xs ys tempLabel (yLabelToPixelOffset tempLabel index offsetProp))"

text \<open>An element of a tick array is a label (it has a \<^verbatim>\<open>text\<close> string) or a bare
  domain value.\<close>

datatype Tick = TickLabel AxisLabel | TickValue Scalar

definition toXAxisTicks :: "D3 \<Rightarrow> LineGraphProps \<Rightarrow> Scale \<Rightarrow> Scale \<Rightarrow> Tick list \<Rightarrow> IAxisTick list" where
  "toXAxisTicks lib p xs ys ticks =
     map (\<lambda>(i, tick).
            case tick of
              TickLabel l \<Rightarrow>
                xLabelToAxisTick p xs ys l
                  (xLabelToPixelOffset l i (Option.bind (xAxis p) x_labelPixelOffset))
            | TickValue v \<Rightarrow>
                xTickToAxisTick lib p xs ys v i (Option.bind (xAxis p) x_labelPixelOffset))
         (enumerate 0 ticks)"

definition toYAxisTicks :: "D3 \<Rightarrow> LineGraphProps \<Rightarrow> Scale \<Rightarrow> Scale \<Rightarrow> Tick list \<Rightarrow> IAxisTick list" where
  "toYAxisTicks lib p xs ys ticks =
     map (\<lambda>(i, tick).
            case tick of
              TickLabel l \<Rightarrow>
                yLabelToAxisTick p xs ys l
                  (yLabelToPixelOffset l i (Option.bind (yAxis p) y_labelPixelOffset))
            | TickValue v \<Rightarrow>
                yTickToAxisTick lib p xs ys v i (Option.bind (yAxis p) y_labelPixelOffset))
         (enumerate 0 ticks)"

text \<open>\<^verbatim>\<open>xLabels instanceof Array ? xLabels : xScale.ticks(xTickCount)\<close>.\<close>

definition xTicks :: "D3 \<Rightarrow> LineGraphProps \<Rightarrow> Scale \<Rightarrow> Tick list" where
  "xTicks lib p xs =
     (case Option.bind (xAxis p) x_labels of
        Some (LabelArray ls) \<Rightarrow> map TickLabel ls
      | _ \<Rightarrow> map TickValue (scale_ticks lib xs (xTickCount p)))"

definition yTicks :: "D3 \<Rightarrow> LineGraphProps \<Rightarrow> Scale \<Rightarrow> Tick list" where
  "yTicks lib p ys =
     (case Option.bind (yAxis p) y_labels of
        Some (LabelArray ls) \<Rightarrow> map TickLabel ls
      | _ \<Rightarrow> map TickValue (scale_ticks lib ys (yTickCount p)))"

definition xAxisTicks :: "D3 \<Rightarrow> LineGraphProps \<Rightarrow> error + IAxisTick list" where
  "xAxisTicks lib p =
     (case scales lib p of
        Inl e \<Rightarrow> Inl e
      | Inr (xs, ys) \<Rightarrow> Inr (toXAxisTicks lib p xs ys (xTicks lib p xs)))"

definition yAxisTicks :: "D3 \<Rightarrow> LineGraphProps \<Rightarrow> error + IAxisTick list" where
  "yAxisTicks lib p =
     (case scales lib p of
        Inl e \<Rightarrow> Inl e
      | Inr (xs, ys) \<Rightarrow> Inr (toYAxisTicks lib p xs ys (yTicks lib p ys)))"

section \<open>The number path on numbers that are not finite\<close>

text \<open>
  A JavaScript number is a finite number, one of the two infinities, or NaN. The model
  above has the finite numbers only. This section repeats the component's path from the
  data to the dots (domain inference, the two scales, the dot positions) on all four
  kinds of numbers, for data whose values are numbers and with nicing off. Arithmetic on
  finite numbers stays exact; what involves an infinity or NaN follows the rules of IEEE
  arithmetic for them. The sign of a zero is not kept: a zero divisor counts as positive.
\<close>

datatype JSNumber = Finite real | PosInfinity | NegInfinity | NaN

text \<open>\<^verbatim>\<open>a < b\<close>: false whenever an operand is NaN.\<close>

fun js_less :: "JSNumber \<Rightarrow> JSNumber \<Rightarrow> bool" where
  "js_less (Finite a) (Finite b) = (a < b)"
| "js_less (Finite a) PosInfinity = True"
| "js_less NegInfinity (Finite b) = True"
| "js_less NegInfinity PosInfinity = True"
| "js_less a b = False"

fun js_uminus :: "JSNumber \<Rightarrow> JSNumber" where
  "js_uminus (Finite a) = Finite (- a)"
| "js_uminus PosInfinity = NegInfinity"
| "js_uminus NegInfinity = PosInfinity"
| "js_uminus NaN = NaN"

text \<open>\<^verbatim>\<open>a + b\<close>: the sum of the two opposite infinities is NaN.\<close>

fun js_plus :: "JSNumber \<Rightarrow> JSNumber \<Rightarrow> JSNumber" where
  "js_plus (Finite a) (Finite b) = Finite (a + b)"
| "js_plus NaN b = NaN"
| "js_plus a NaN = NaN"
| "js_plus PosInfinity NegInfinity = NaN"
| "js_plus NegInfinity PosInfinity = NaN"
| "js_plus PosInfinity b = PosInfinity"
| "js_plus a PosInfinity = PosInfinity"
| "js_plus NegInfinity b = NegInfinity"
| "js_plus a NegInfinity = NegInfinity"

definition js_minus :: "JSNumber \<Rightarrow> JSNumber \<Rightarrow> JSNumber" where
  "js_minus a b = js_plus a (js_uminus b)"

text \<open>The sign of a number (0 for zero and for NaN), and the infinity of a sign (NaN for
  the sign 0).\<close>

fun js_sign :: "JSNumber \<Rightarrow> real" where
  "js_sign (Finite a) = sgn a"
| "js_sign PosInfinity = 1"
| "js_sign NegInfinity = - 1"
| "js_sign NaN = 0"

definition infinity_of :: "real \<Rightarrow> JSNumber" where
  "infinity_of sign = (if sign > 0 then PosInfinity else if sign < 0 then NegInfinity else NaN)"

text \<open>\<^verbatim>\<open>a * b\<close>: an infinity times zero is NaN.\<close>

fun js_times :: "JSNumber \<Rightarrow> JSNumber \<Rightarrow> JSNumber" where
  "js_times (Finite a) (Finite b) = Finite (a * b)"
| "js_times NaN b = NaN"
| "js_times a NaN = NaN"
| "js_times a b = infinity_of (js_sign a * js_sign b)"

text \<open>\<^verbatim>\<open>a / b\<close>: zero by zero and an infinity by an infinity are NaN; a finite number by
  an infinity is zero.\<close>

fun js_divide :: "JSNumber \<Rightarrow> JSNumber \<Rightarrow> JSNumber" where
  "js_divide NaN b = NaN"
| "js_divide a NaN = NaN"
| "js_divide (Finite a) (Finite b) = (if b = 0 then infinity_of a else Finite (a / b))"
| "js_divide (Finite a) b = Finite 0"
| "js_divide a (Finite b) = infinity_of (js_sign a * (if b < 0 then - 1 else 1))"
| "js_divide a b = NaN"

text \<open>A number as a condition: zero and NaN are falsy.\<close>

definition js_truthy :: "JSNumber \<Rightarrow> bool" where
  "js_truthy n = (n \<noteq> Finite 0 \<and> n \<noteq> NaN)"

text \<open>Modelled from the spec: the library's \<^verbatim>\<open>normalize(a, b)\<close>, as \<open>normalize\<close> above,
  on all numbers. The library tests the difference of the bounds as a condition; where it
  is falsy it returns the constant NaN for a NaN difference and 1/2 for zero.\<close>

definition js_normalize :: "JSNumber \<Rightarrow> JSNumber \<Rightarrow> JSNumber \<Rightarrow> JSNumber" where
  "js_normalize a b v =
     (let d = js_minus b a
      in if js_truthy d then js_divide (js_minus v a) d
         else if d = NaN then NaN else Finite (1 / 2))"

text \<open>Modelled from the spec: the library's number interpolator, as \<open>interpolateNumber\<close>
  above, on all numbers.\<close>

definition js_interpolateNumber :: "JSNumber \<Rightarrow> JSNumber \<Rightarrow> JSNumber \<Rightarrow> JSNumber" where
  "js_interpolateNumber a b t = js_plus (js_times a (js_minus (Finite 1) t)) (js_times b t)"

text \<open>Modelled from the spec: the library's \<^verbatim>\<open>bimap\<close>, as \<open>bimap\<close> above, on all
  numbers.\<close>

definition js_bimap :: "JSNumber \<times> JSNumber \<Rightarrow> JSNumber \<times> JSNumber \<Rightarrow> JSNumber \<Rightarrow> JSNumber" where
  "js_bimap d r v =
     (if js_less (snd d) (fst d)
      then js_interpolateNumber (snd r) (fst r) (js_normalize (snd d) (fst d) v)
      else js_interpolateNumber (fst r) (snd r) (js_normalize (fst d) (snd d) v))"

text \<open>A linear scale on all numbers: its domain and its range.\<close>

record JSScale =
  js_domain :: "JSNumber \<times> JSNumber"
  js_range :: "JSNumber \<times> JSNumber"

text \<open>Modelled from the spec: applying a linear scale, as \<open>scale_apply\<close> above, on all
  numbers. For the argument NaN the library returns the scale's unknown value, which is
  \<^verbatim>\<open>undefined\<close> (here \<open>None\<close>).\<close>

definition js_scale_apply :: "JSScale \<Rightarrow> JSNumber \<Rightarrow> JSNumber option" where
  "js_scale_apply s v = (if v = NaN then None else Some (js_bimap (js_domain s) (js_range s) v))"

record JSDatum =
  js_x :: JSNumber
  js_y :: JSNumber

text \<open>The props of the number path: the data, the size, the paddings and the visible
  ranges.\<close>

record JSProps =
  js_data :: "JSDatum list"
  js_width :: JSNumber
  js_height :: JSNumber
  js_paddingTop :: "JSNumber option"
  js_paddingRight :: "JSNumber option"
  js_paddingBottom :: "JSNumber option"
  js_paddingLeft :: "JSNumber option"
  js_visibleX :: "(JSNumber \<times> JSNumber) option"
  js_visibleY :: "(JSNumber \<times> JSNumber) option"

text \<open>\<^verbatim>\<open>min\<close> and \<^verbatim>\<open>max\<close> of the source, on all numbers.\<close>

definition js_min :: "JSNumber list \<Rightarrow> error + JSNumber" where
  "js_min array = reduce (\<lambda>a b. if js_less a b then a else b) array"

definition js_max :: "JSNumber list \<Rightarrow> error + JSNumber" where
  "js_max array = reduce (\<lambda>a b. if js_less b a then a else b) array"

definition js_chartBottomPixel :: "JSProps \<Rightarrow> JSNumber" where
  "js_chartBottomPixel p =
     js_minus (js_height p) (or_default (js_paddingBottom p) (Finite DEFAULT_PADDING_BOTTOM))"

definition js_chartLeftPixel :: "JSProps \<Rightarrow> JSNumber" where
  "js_chartLeftPixel p = or_default (js_paddingLeft p) (Finite DEFAULT_PADDING_LEFT)"

definition js_chartTopPixel :: "JSProps \<Rightarrow> JSNumber" where
  "js_chartTopPixel p = or_default (js_paddingTop p) (Finite DEFAULT_PADDING_TOP)"

definition js_chartRightPixel :: "JSProps \<Rightarrow> JSNumber" where
  "js_chartRightPixel p =
     js_minus (js_width p) (or_default (js_paddingRight p) (Finite DEFAULT_PADDING_RIGHT))"

definition js_defaultDomain ::
  "JSDatum list \<Rightarrow> AxisKey \<Rightarrow> error + JSNumber \<times> JSNumber" where
  "js_defaultDomain dat key =
     (let values = map (\<lambda>e. case key of KeyX \<Rightarrow> js_x e | KeyY \<Rightarrow> js_y e) dat
      in case js_min values of
           Inl e \<Rightarrow> Inl e
         | Inr lowest \<Rightarrow>
             (case js_max values of
                Inl e \<Rightarrow> Inl e
              | Inr highest \<Rightarrow> Inr (lowest, highest)))"

definition js_xDomain :: "JSProps \<Rightarrow> error + JSNumber \<times> JSNumber" where
  "js_xDomain p =
     (case js_visibleX p of
        Some v \<Rightarrow> Inr v
      | None \<Rightarrow> js_defaultDomain (js_data p) KeyX)"

definition js_yDomain :: "JSProps \<Rightarrow> error + JSNumber \<times> JSNumber" where
  "js_yDomain p =
     (case js_visibleY p of
        Some v \<Rightarrow> Inr v
      | None \<Rightarrow> js_defaultDomain (js_data p) KeyY)"

text \<open>The two scales, in the order the component builds them: linear scales, since the
  data are numbers, and not niced.\<close>

definition js_scales :: "JSProps \<Rightarrow> error + JSScale \<times> JSScale" where
  "js_scales p =
     (case js_xDomain p of
        Inl e \<Rightarrow> Inl e
      | Inr dx \<Rightarrow>
          (case js_yDomain p of
             Inl e \<Rightarrow> Inl e
           | Inr dy \<Rightarrow>
               Inr (\<lparr>js_domain = dx, js_range = (js_chartLeftPixel p, js_chartRightPixel p)\<rparr>,
                    \<lparr>js_domain = dy, js_range = (js_chartBottomPixel p, js_chartTopPixel p)\<rparr>)))"

text \<open>\<^verbatim>\<open>dotData\<close>: the centre \<^verbatim>\<open>(cx, cy)\<close> of each datum's dot; a coordinate is a number
  or \<^verbatim>\<open>undefined\<close>.\<close>

definition js_dotData :: "JSProps \<Rightarrow> error + (JSNumber option \<times> JSNumber option) list" where
  "js_dotData p =
     (case js_scales p of
        Inl e \<Rightarrow> Inl e
      | Inr (xs, ys) \<Rightarrow>
          Inr (map (\<lambda>d. (js_scale_apply xs (js_x d), js_scale_apply ys (js_y d))) (js_data p)))"

section \<open>Sample inputs\<close>

text \<open>
  Concrete inputs on which the component is run below. \<open>sample_d3\<close> stands in for the
  scaling library where a concrete one is needed: a fixed step of 5, whole-number calendar
  intervals, the two domain bounds (and, from a count of 3, their midpoint) as ticks, and
  the format specifier itself as the text of every tick. \<open>example_props\<close> is the input
  of the spec's example; the other inputs vary it.
\<close>

definition sample_d3 :: D3 where
  "sample_d3 =
     \<lparr>tickIncrement = (\<lambda>start stop count. 5),
      timeTickInterval =
        (\<lambda>start stop count.
           Some \<lparr>interval_floor = (\<lambda>t. of_int \<lfloor>t\<rfloor>), interval_ceil = (\<lambda>t. of_int \<lceil>t\<rceil>)\<rparr>),
      scale_ticks =
        (\<lambda>s count.
           if count < 3 then [Num (fst (scale_domain s)), Num (snd (scale_domain s))]
           else [Num (fst (scale_domain s)),
                 Num ((fst (scale_domain s) + snd (scale_domain s)) / 2),
                 Num (snd (scale_domain s))]),
      scale_tickFormat = (\<lambda>s count specifier v. case specifier of None \<Rightarrow> [] | Some f \<Rightarrow> f)\<rparr>"

definition empty_xAxis :: XAxisLabelDecoration where
  "empty_xAxis =
     \<lparr>formatSpecifier = None, gridLineProps = None, nice = None, x_labels = None,
      x_labelPixelOffset = None, pixelY = None, visibleX = None\<rparr>"

definition empty_yAxis :: YAxisLabelDecoration where
  "empty_yAxis =
     \<lparr>formatSpecifier = None, gridLineProps = None, nice = None, y_labels = None,
      y_labelPixelOffset = None, pixelX = None, visibleY = None\<rparr>"

definition example_props :: LineGraphProps where
  "example_props =
     \<lparr>data = [\<lparr>datum_x = Num 0, datum_y = Num 0\<rparr>, \<lparr>datum_x = Num 10, datum_y = Num 10\<rparr>],
      width = 100, height = 100,
      paddingTop = Some 0, paddingRight = Some 0, paddingBottom = Some 0, paddingLeft = Some 0,
      xAxis = None, yAxis = None\<rparr>"


definition mixed_props :: LineGraphProps where
  "mixed_props =
     example_props
       \<lparr>data := [\<lparr>datum_x = Date 1000, datum_y = Num 1\<rparr>, \<lparr>datum_x = Num 5, datum_y = Date 7\<rparr>]\<rparr>"

definition single_props :: LineGraphProps where
  "single_props = example_props\<lparr>data := [\<lparr>datum_x = Num 3, datum_y = Num 4\<rparr>]\<rparr>"

definition decorated_props :: LineGraphProps where
  "decorated_props =
     example_props
       \<lparr>xAxis := Some (empty_xAxis
          \<lparr>gridLineProps := Some \<lparr>startExtendPixels = Some 5, endExtendPixels = None\<rparr>,
           x_labels := Some (LabelArray [\<lparr>label_value = Num 0, label_text = ''0''\<rparr>]),
           x_labelPixelOffset := Some (OffsetObject \<lparr>horizontal = 5, vertical = 0\<rparr>)\<rparr>),
        yAxis := Some (empty_yAxis
          \<lparr>y_labels := Some (LabelArray [\<lparr>label_value = Num 10, label_text = ''10''\<rparr>]),
           y_labelPixelOffset := Some (OffsetObject \<lparr>horizontal = 0, vertical = 3\<rparr>)\<rparr>)\<rparr>"

definition decorated_xtick :: IAxisTick where
  "decorated_xtick =
     \<lparr>tick_x = Num 0, tick_y = Num (- 6 / 5), tick_pixelX = 0, tick_pixelY = 112,
      tick_text = ''0'', textProps = \<lparr>text_x = 5, text_y = 112\<rparr>,
      gridLine =
        \<lparr>p1 = \<lparr>pd_x = Num 0, pd_y = Num (21 / 2), pd_pixelX = 0, pd_pixelY = - 5\<rparr>,
         p2 = \<lparr>pd_x = Num 0, pd_y = Num 0, pd_pixelX = 0, pd_pixelY = 100\<rparr>\<rparr>\<rparr>"

definition decorated_ytick :: IAxisTick where
  "decorated_ytick =
     \<lparr>tick_x = Num (- 2 / 5), tick_y = Num 10, tick_pixelX = - 4, tick_pixelY = 0,
      tick_text = ''10'', textProps = \<lparr>text_x = - 4, text_y = 3\<rparr>,
      gridLine =
        \<lparr>p1 = \<lparr>pd_x = Num 0, pd_y = Num 10, pd_pixelX = 0, pd_pixelY = 0\<rparr>,
         p2 = \<lparr>pd_x = Num 10, pd_y = Num 10, pd_pixelX = 100, pd_pixelY = 0\<rparr>\<rparr>\<rparr>"





definition count_props :: LineGraphProps where
  "count_props =
     example_props
       \<lparr>xAxis := Some (empty_xAxis\<lparr>x_labels := Some (LabelCount 5)\<rparr>),
        yAxis := Some (empty_yAxis\<lparr>y_labels := Some (LabelCount 3)\<rparr>)\<rparr>"

definition narrow_props :: LineGraphProps where
  "narrow_props = example_props\<lparr>width := 10, paddingRight := None, paddingLeft := None\<rparr>"





definition infinite_props :: JSProps where
  "infinite_props =
     \<lparr>js_data = [\<lparr>js_x = Finite 0, js_y = Finite 0\<rparr>, \<lparr>js_x = PosInfinity, js_y = Finite 10\<rparr>],
      js_width = Finite 100, js_height = Finite 100,
      js_paddingTop = Some (Finite 0), js_paddingRight = Some (Finite 0),
      js_paddingBottom = Some (Finite 0), js_paddingLeft = Some (Finite 0),
      js_visibleX = None, js_visibleY = None\<rparr>"

section \<open>Facts about the model\<close>

subsection \<open>The scale map and nicing\<close>

lemma round_down_le: "round_down step v \<le> v"
proof -
  consider "step > 0" | "step < 0" | "step = 0" by linarith
  then show ?thesis
  proof cases
    case 1
    have "of_int \<lfloor>v / step\<rfloor> \<le> v / step" by (rule of_int_floor_le)
    with 1 have "of_int \<lfloor>v / step\<rfloor> * step \<le> v / step * step"
      by (intro mult_right_mono) simp_all
    with 1 show ?thesis by (simp add: round_down_def)
  next
    case 2
    have "v * step \<le> of_int \<lceil>v * step\<rceil>" by (rule le_of_int_ceiling)
    with 2 show ?thesis by (simp add: round_down_def neg_divide_le_eq)
  next
    case 3
    then show ?thesis by (simp add: round_down_def)
  qed
qed

lemma round_up_ge: "v \<le> round_up step v"
proof -
  consider "step > 0" | "step < 0" | "step = 0" by linarith
  then show ?thesis
  proof cases
    case 1
    have "v / step \<le> of_int \<lceil>v / step\<rceil>" by (rule le_of_int_ceiling)
    with 1 have "v / step * step \<le> of_int \<lceil>v / step\<rceil> * step"
      by (intro mult_right_mono) simp_all
    with 1 show ?thesis by (simp add: round_up_def)
  next
    case 2
    have "of_int \<lfloor>v * step\<rfloor> \<le> v * step" by (rule of_int_floor_le)
    with 2 show ?thesis by (simp add: round_up_def neg_le_divide_eq)
  next
    case 3
    then show ?thesis by (simp add: round_up_def)
  qed
qed

lemma interpolateNumber_between:
  assumes "0 \<le> t" "t \<le> 1"
  shows "min a b \<le> interpolateNumber a b t \<and> interpolateNumber a b t \<le> max a b"
proof -
  have eq: "interpolateNumber a b t = a + (b - a) * t"
    by (simp add: interpolateNumber_def algebra_simps)
  show ?thesis
  proof (cases "a \<le> b")
    case True
    then have "0 \<le> (b - a) * t" "(b - a) * t \<le> b - a"
      using assms by (simp_all add: mult_left_le)
    with True show ?thesis unfolding eq by simp
  next
    case False
    then have "(b - a) * t \<le> 0"
      using assms by (simp add: mult_nonpos_nonneg)
    moreover have "b - a \<le> (b - a) * t"
      using False assms mult_left_mono_neg [of t 1 "b - a"] by simp
    moreover from False have "min a b = b" "max a b = a" by simp_all
    ultimately show ?thesis unfolding eq by linarith
  qed
qed

lemma normalize_between:
  assumes "a \<le> v" "v \<le> b"
  shows "0 \<le> normalize a b v \<and> normalize a b v \<le> 1"
  using assms by (auto simp: normalize_def)

lemma bimap_between:
  assumes "min (fst d) (snd d) \<le> v" "v \<le> max (fst d) (snd d)"
  shows "min (fst r) (snd r) \<le> bimap d r v \<and> bimap d r v \<le> max (fst r) (snd r)"
proof (cases "snd d < fst d")
  case True
  with assms have "snd d \<le> v" "v \<le> fst d" by auto
  from normalize_between [OF this] interpolateNumber_between [of "normalize (snd d) (fst d) v" "snd r" "fst r"]
  show ?thesis using True by (simp add: bimap_def min.commute max.commute)
next
  case False
  with assms have "fst d \<le> v" "v \<le> snd d" by auto
  from normalize_between [OF this] interpolateNumber_between [of "normalize (fst d) (snd d) v" "fst r" "snd r"]
  show ?thesis using False by (simp add: bimap_def)
qed






lemma linear_nice_ascending:
  assumes "fst d \<le> snd d"
  shows "fst (linear_nice incr c d) \<le> fst d \<and> snd d \<le> snd (linear_nice incr c d)"
proof -
  define step where "step = incr (fst d) (snd d) c"
  define start1 where "start1 = round_down step (fst d)"
  define stop1 where "stop1 = round_up step (snd d)"
  define step1 where "step1 = (if step \<noteq> 0 then incr start1 stop1 c else step)"
  from assms have asc: "\<not> snd d < fst d" by simp
  have eq: "linear_nice incr c d =
      (if step1 = 0 then d else (round_down step1 start1, round_up step1 stop1))"
    using asc by (simp add: linear_nice_def Let_def step_def start1_def stop1_def step1_def)
  have lo: "round_down step1 start1 \<le> fst d"
    using round_down_le [of step1 start1] round_down_le [of step "fst d"]
    by (simp add: start1_def)
  have hi: "snd d \<le> round_up step1 stop1"
    using round_up_ge [of stop1 step1] round_up_ge [of "snd d" step]
    by (simp add: stop1_def)
  show ?thesis using lo hi by (simp add: eq)
qed

lemma time_nice_ascending:
  assumes "fst d \<le> snd d"
    and "interval_floor i (fst d) \<le> fst d" and "snd d \<le> interval_ceil i (snd d)"
  shows "fst (time_nice i d) \<le> fst d \<and> snd d \<le> snd (time_nice i d)"
  using assms by (simp add: time_nice_def)

lemma maybeWithNice_kind [simp]: "scale_kind (maybeWithNice lib s n) = scale_kind s"
  by (simp add: maybeWithNice_def scale_nice_def Let_def
      split: option.splits NiceProp.splits ScaleKind.splits)

lemma maybeWithNice_range [simp]: "scale_range (maybeWithNice lib s n) = scale_range s"
  by (simp add: maybeWithNice_def scale_nice_def Let_def
      split: option.splits NiceProp.splits ScaleKind.splits)

subsection \<open>Domain inference and the construction of the scales\<close>

lemma foldl_min_in: "foldl (\<lambda>a b. if valueOf a < valueOf b then a else b) a rest \<in> set (a # rest)"
  by (induction rest arbitrary: a) auto

lemma foldl_max_in: "foldl (\<lambda>a b. if valueOf a > valueOf b then a else b) a rest \<in> set (a # rest)"
  by (induction rest arbitrary: a) auto

lemma foldl_min_value:
  "valueOf (foldl (\<lambda>a b. if valueOf a < valueOf b then a else b) a rest)
     = fold min (map valueOf rest) (valueOf a)"
proof (induction rest arbitrary: a)
  case Nil
  show ?case by simp
next
  case (Cons b rest)
  have "valueOf (if valueOf a < valueOf b then a else b) = min (valueOf b) (valueOf a)"
    by (simp add: min_def)
  with Cons show ?case by simp
qed

lemma foldl_max_value:
  "valueOf (foldl (\<lambda>a b. if valueOf a > valueOf b then a else b) a rest)
     = fold max (map valueOf rest) (valueOf a)"
proof (induction rest arbitrary: a)
  case Nil
  show ?case by simp
next
  case (Cons b rest)
  have "valueOf (if valueOf a > valueOf b then a else b) = max (valueOf b) (valueOf a)"
    by (simp add: max_def)
  with Cons show ?case by simp
qed

lemma min_arr_nonempty:
  assumes "array \<noteq> []"
  shows "\<exists>m. min_arr array = Inr m \<and> m \<in> set array \<and> valueOf m = Min (valueOf ` set array)"
proof -
  from assms obtain a rest where ar: "array = a # rest" by (cases array) auto
  let ?m = "foldl (\<lambda>a b. if valueOf a < valueOf b then a else b) a rest"
  have "Min (set (valueOf a # map valueOf rest)) = fold min (map valueOf rest) (valueOf a)"
    by (rule Min.set_eq_fold)
  then have "valueOf ?m = Min (valueOf ` set array)"
    by (simp add: foldl_min_value ar)
  moreover have "?m \<in> set array" unfolding ar by (rule foldl_min_in)
  moreover have "min_arr array = Inr ?m" by (simp add: min_arr_def reduce_def ar)
  ultimately show ?thesis by blast
qed

lemma max_arr_nonempty:
  assumes "array \<noteq> []"
  shows "\<exists>m. max_arr array = Inr m \<and> m \<in> set array \<and> valueOf m = Max (valueOf ` set array)"
proof -
  from assms obtain a rest where ar: "array = a # rest" by (cases array) auto
  let ?m = "foldl (\<lambda>a b. if valueOf a > valueOf b then a else b) a rest"
  have "Max (set (valueOf a # map valueOf rest)) = fold max (map valueOf rest) (valueOf a)"
    by (rule Max.set_eq_fold)
  then have "valueOf ?m = Max (valueOf ` set array)"
    by (simp add: foldl_max_value ar)
  moreover have "?m \<in> set array" unfolding ar by (rule foldl_max_in)
  moreover have "max_arr array = Inr ?m" by (simp add: max_arr_def reduce_def ar)
  ultimately show ?thesis by blast
qed

lemma defaultDomain_empty: "defaultDomain [] key = Inl TypeError"
  by (simp add: defaultDomain_def min_arr_def reduce_def)

lemma defaultDomain_nonempty:
  assumes "dat \<noteq> []"
  shows "\<exists>lo hi. defaultDomain dat key = Inr (lo, hi)
     \<and> lo \<in> datum_get key ` set dat \<and> hi \<in> datum_get key ` set dat
     \<and> valueOf lo = Min ((\<lambda>e. valueOf (datum_get key e)) ` set dat)
     \<and> valueOf hi = Max ((\<lambda>e. valueOf (datum_get key e)) ` set dat)"
proof -
  from assms have ne: "map (datum_get key) dat \<noteq> []" by simp
  from min_arr_nonempty [OF ne] obtain lo where
    lo: "min_arr (map (datum_get key) dat) = Inr lo" "lo \<in> set (map (datum_get key) dat)"
      "valueOf lo = Min (valueOf ` set (map (datum_get key) dat))" by blast
  from max_arr_nonempty [OF ne] obtain hi where
    hi: "max_arr (map (datum_get key) dat) = Inr hi" "hi \<in> set (map (datum_get key) dat)"
      "valueOf hi = Max (valueOf ` set (map (datum_get key) dat))" by blast
  have "defaultDomain dat key = Inr (lo, hi)"
    by (simp add: defaultDomain_def Let_def lo(1) hi(1))
  moreover have "valueOf ` set (map (datum_get key) dat) = (\<lambda>e. valueOf (datum_get key e)) ` set dat"
    by (simp add: image_image)
  ultimately show ?thesis using lo(2,3) hi(2,3) by auto
qed

lemma error_is_TypeError: "(e :: error) = TypeError"
  by (cases e) simp

lemma xDomain_visible:
  assumes "Option.bind (xAxis p) visibleX = Some v"
  shows "xDomain (p\<lparr>data := dat\<rparr>) = Inr v"
  using assms by (simp add: xDomain_def)

lemma yDomain_visible:
  assumes "Option.bind (yAxis p) visibleY = Some v"
  shows "yDomain (p\<lparr>data := dat\<rparr>) = Inr v"
  using assms by (simp add: yDomain_def)

lemma xDomain_inferred:
  assumes "Option.bind (xAxis p) visibleX = None" and "data p \<noteq> []"
  shows "\<exists>lo hi. xDomain p = Inr (lo, hi)
     \<and> lo \<in> datum_x ` set (data p) \<and> hi \<in> datum_x ` set (data p)
     \<and> valueOf lo = Min ((\<lambda>e. valueOf (datum_x e)) ` set (data p))
     \<and> valueOf hi = Max ((\<lambda>e. valueOf (datum_x e)) ` set (data p))"
proof -
  have g: "datum_get KeyX = datum_x" by (rule ext) (simp add: datum_get_def)
  from defaultDomain_nonempty [OF assms(2), of KeyX] obtain lo hi where
    d: "defaultDomain (data p) KeyX = Inr (lo, hi)"
      "lo \<in> datum_x ` set (data p)" "hi \<in> datum_x ` set (data p)"
      "valueOf lo = Min ((\<lambda>e. valueOf (datum_x e)) ` set (data p))"
      "valueOf hi = Max ((\<lambda>e. valueOf (datum_x e)) ` set (data p))"
    unfolding g by blast
  have "xDomain p = Inr (lo, hi)" using assms(1) d(1) by (simp add: xDomain_def)
  then show ?thesis using d(2-5) by blast
qed

lemma yDomain_inferred:
  assumes "Option.bind (yAxis p) visibleY = None" and "data p \<noteq> []"
  shows "\<exists>lo hi. yDomain p = Inr (lo, hi)
     \<and> lo \<in> datum_y ` set (data p) \<and> hi \<in> datum_y ` set (data p)
     \<and> valueOf lo = Min ((\<lambda>e. valueOf (datum_y e)) ` set (data p))
     \<and> valueOf hi = Max ((\<lambda>e. valueOf (datum_y e)) ` set (data p))"
proof -
  have g: "datum_get KeyY = datum_y" by (rule ext) (simp add: datum_get_def)
  from defaultDomain_nonempty [OF assms(2), of KeyY] obtain lo hi where
    d: "defaultDomain (data p) KeyY = Inr (lo, hi)"
      "lo \<in> datum_y ` set (data p)" "hi \<in> datum_y ` set (data p)"
      "valueOf lo = Min ((\<lambda>e. valueOf (datum_y e)) ` set (data p))"
      "valueOf hi = Max ((\<lambda>e. valueOf (datum_y e)) ` set (data p))"
    unfolding g by blast
  have "yDomain p = Inr (lo, hi)" using assms(1) d(1) by (simp add: yDomain_def)
  then show ?thesis using d(2-5) by blast
qed

lemma xDomain_error_iff:
  "(xDomain p = Inl TypeError) = (Option.bind (xAxis p) visibleX = None \<and> data p = [])"
proof (cases "Option.bind (xAxis p) visibleX")
  case None
  show ?thesis
  proof (cases "data p = []")
    case True
    with None show ?thesis by (simp add: xDomain_def defaultDomain_empty)
  next
    case False
    from xDomain_inferred [OF None False] False None show ?thesis by auto
  qed
next
  case (Some v)
  then show ?thesis by (simp add: xDomain_def)
qed

lemma yDomain_error_iff:
  "(yDomain p = Inl TypeError) = (Option.bind (yAxis p) visibleY = None \<and> data p = [])"
proof (cases "Option.bind (yAxis p) visibleY")
  case None
  show ?thesis
  proof (cases "data p = []")
    case True
    with None show ?thesis by (simp add: yDomain_def defaultDomain_empty)
  next
    case False
    from yDomain_inferred [OF None False] False None show ?thesis by auto
  qed
next
  case (Some v)
  then show ?thesis by (simp add: yDomain_def)
qed

lemma xScale_cases:
  "(xDomain p = Inl TypeError \<and> xScale lib p = Inl TypeError)
   \<or> (\<exists>d. xDomain p = Inr d
        \<and> xScale lib p = Inr (maybeWithNice lib
             (make_scale (scaleKindFor (data p) KeyX) d (chartLeftPixel p, chartRightPixel p))
             (Option.bind (xAxis p) nice)))"
proof (cases "xDomain p")
  case (Inl e)
  then show ?thesis by (simp add: xScale_def xBeforeNice_def error_is_TypeError [of e])
next
  case (Inr d)
  then show ?thesis by (simp add: xScale_def xBeforeNice_def)
qed

lemma yScale_cases:
  "(yDomain p = Inl TypeError \<and> yScale lib p = Inl TypeError)
   \<or> (\<exists>d. yDomain p = Inr d
        \<and> yScale lib p = Inr (maybeWithNice lib
             (make_scale (scaleKindFor (data p) KeyY) d (chartBottomPixel p, chartTopPixel p))
             (Option.bind (yAxis p) nice)))"
proof (cases "yDomain p")
  case (Inl e)
  then show ?thesis by (simp add: yScale_def yBeforeNice_def error_is_TypeError [of e])
next
  case (Inr d)
  then show ?thesis by (simp add: yScale_def yBeforeNice_def)
qed

lemma scales_Inr:
  assumes "scales lib p = Inr (xs, ys)"
  shows "xScale lib p = Inr xs \<and> yScale lib p = Inr ys"
  using assms by (simp add: scales_def split: sum.splits)

lemma scales_shape:
  assumes "scales lib p = Inr (xs, ys)"
  shows "scale_kind xs = scaleKindFor (data p) KeyX
       \<and> scale_range xs = (chartLeftPixel p, chartRightPixel p)
       \<and> scale_kind ys = scaleKindFor (data p) KeyY
       \<and> scale_range ys = (chartBottomPixel p, chartTopPixel p)"
proof -
  from scales_Inr [OF assms] have x: "xScale lib p = Inr xs" and y: "yScale lib p = Inr ys"
    by simp_all
  from x xScale_cases [of p lib] have "scale_kind xs = scaleKindFor (data p) KeyX
       \<and> scale_range xs = (chartLeftPixel p, chartRightPixel p)"
    by (auto simp: make_scale_def)
  moreover from y yScale_cases [of p lib] have "scale_kind ys = scaleKindFor (data p) KeyY
       \<and> scale_range ys = (chartBottomPixel p, chartTopPixel p)"
    by (auto simp: make_scale_def)
  ultimately show ?thesis by simp
qed

lemma scales_error_iff:
  "(scales lib p = Inl TypeError) = (xDomain p = Inl TypeError \<or> yDomain p = Inl TypeError)"
  using xScale_cases [of p lib] yScale_cases [of p lib]
  by (auto simp: scales_def split: sum.splits)

lemma scales_total:
  "scales lib p = Inl TypeError \<or> (\<exists>xs ys. scales lib p = Inr (xs, ys))"
  by (cases "scales lib p") (auto simp: error_is_TypeError)






subsection \<open>Rule sets for running the component on a concrete input\<close>

lemmas chart_pixels =
  chartLeftPixel_def chartRightPixel_def chartTopPixel_def chartBottomPixel_def or_default_def
  DEFAULT_PADDING_TOP_def DEFAULT_PADDING_RIGHT_def DEFAULT_PADDING_BOTTOM_def
  DEFAULT_PADDING_LEFT_def

lemmas scale_building =
  scales_def xScale_def yScale_def xBeforeNice_def yBeforeNice_def xDomain_def yDomain_def
  defaultDomain_def min_arr_def max_arr_def reduce_def datum_get_def make_scale_def
  scaleKindFor_def maybeWithNice_def toInteger_def

lemmas scale_maps = scale_apply_def bimap_def normalize_def interpolateNumber_def

subsection \<open>Scale kinds, collapsed domains and dots\<close>

lemma scaleKindFor_first:
  "scaleKindFor dat key =
     (if dat \<noteq> [] \<and> instanceofDate (datum_get key (hd dat)) then ScaleTime else ScaleLinear)"
  by (cases dat) (simp_all add: scaleKindFor_def)

lemma scaleKindFor_take: "scaleKindFor (take 1 dat) key = scaleKindFor dat key"
  by (cases dat) (simp_all add: scaleKindFor_def)

lemma scale_apply_collapsed:
  assumes "fst (scale_domain s) = snd (scale_domain s)"
  shows "scale_apply s v = (fst (scale_range s) + snd (scale_range s)) / 2"
  using assms by (simp add: scale_maps)

lemma dotData_Inr:
  assumes "scales lib p = Inr (xs, ys)"
  shows "dotData lib p =
     Inr (map (\<lambda>d. (scale_apply xs (datum_x d), scale_apply ys (datum_y d))) (data p))"
  using assms by (simp add: dotData_def)

subsection \<open>Axis ticks\<close>

lemma length_toXAxisTicks [simp]: "length (toXAxisTicks lib p xs ys ticks) = length ticks"
  by (simp add: toXAxisTicks_def)

lemma length_toYAxisTicks [simp]: "length (toYAxisTicks lib p xs ys ticks) = length ticks"
  by (simp add: toYAxisTicks_def)

lemma toXAxisTicks_nth:
  assumes "i < length ticks"
  shows "\<exists>l. toXAxisTicks lib p xs ys ticks ! i =
           xLabelToAxisTick p xs ys l
             (xLabelToPixelOffset l i (Option.bind (xAxis p) x_labelPixelOffset))"
  using assms
  by (cases "ticks ! i")
    (auto simp: toXAxisTicks_def nth_enumerate_eq xTickToAxisTick_def Let_def)

lemma toYAxisTicks_nth:
  assumes "i < length ticks"
  shows "\<exists>l. toYAxisTicks lib p xs ys ticks ! i =
           yLabelToAxisTick p xs ys l
             (yLabelToPixelOffset l i (Option.bind (yAxis p) y_labelPixelOffset))"
  using assms
  by (cases "ticks ! i")
    (auto simp: toYAxisTicks_def nth_enumerate_eq yTickToAxisTick_def Let_def)

lemma xAxisTicks_nth:
  assumes "scales lib p = Inr (xs, ys)" and "xAxisTicks lib p = Inr ts" and "i < length ts"
  shows "\<exists>l. ts ! i =
           xLabelToAxisTick p xs ys l
             (xLabelToPixelOffset l i (Option.bind (xAxis p) x_labelPixelOffset))"
proof -
  from assms(1,2) have ts: "ts = toXAxisTicks lib p xs ys (xTicks lib p xs)"
    by (simp add: xAxisTicks_def)
  with assms(3) have "i < length (xTicks lib p xs)" by simp
  from toXAxisTicks_nth [OF this] show ?thesis unfolding ts .
qed

lemma yAxisTicks_nth:
  assumes "scales lib p = Inr (xs, ys)" and "yAxisTicks lib p = Inr ts" and "i < length ts"
  shows "\<exists>l. ts ! i =
           yLabelToAxisTick p xs ys l
             (yLabelToPixelOffset l i (Option.bind (yAxis p) y_labelPixelOffset))"
proof -
  from assms(1,2) have ts: "ts = toYAxisTicks lib p xs ys (yTicks lib p ys)"
    by (simp add: yAxisTicks_def)
  with assms(3) have "i < length (yTicks lib p ys)" by simp
  from toYAxisTicks_nth [OF this] show ?thesis unfolding ts .
qed

lemma xLabelToAxisTick_fields:
  "tick_x (xLabelToAxisTick p xs ys l off) = label_value l"
  "tick_text (xLabelToAxisTick p xs ys l off) = label_text l"
  "tick_pixelX (xLabelToAxisTick p xs ys l off) = scale_apply xs (label_value l)"
  "tick_pixelY (xLabelToAxisTick p xs ys l off) = defaultXAxisPixelY p"
  "text_x (textProps (xLabelToAxisTick p xs ys l off)) = scale_apply xs (label_value l) + horizontal off"
  "text_y (textProps (xLabelToAxisTick p xs ys l off)) = defaultXAxisPixelY p + vertical off"
  "pd_pixelX (p1 (gridLine (xLabelToAxisTick p xs ys l off))) = scale_apply xs (label_value l)"
  "pd_pixelX (p2 (gridLine (xLabelToAxisTick p xs ys l off))) = scale_apply xs (label_value l)"
  "pd_pixelY (p1 (gridLine (xLabelToAxisTick p xs ys l off)))
     = scale_apply ys (scale_invert ys (chartTopPixel p - xStartExtend p))"
  "pd_pixelY (p2 (gridLine (xLabelToAxisTick p xs ys l off)))
     = scale_apply ys (scale_invert ys (chartBottomPixel p + xEndExtend p))"
  by (simp_all add: xLabelToAxisTick_def xTextLabelProps_def xTickToGridLine_def Let_def)

lemma yLabelToAxisTick_fields:
  "tick_y (yLabelToAxisTick p xs ys l off) = label_value l"
  "tick_text (yLabelToAxisTick p xs ys l off) = label_text l"
  "tick_pixelY (yLabelToAxisTick p xs ys l off) = scale_apply ys (label_value l)"
  "tick_pixelX (yLabelToAxisTick p xs ys l off) = defaultYAxisPixelX p"
  "text_y (textProps (yLabelToAxisTick p xs ys l off)) = scale_apply ys (label_value l) + vertical off"
  "text_x (textProps (yLabelToAxisTick p xs ys l off)) = defaultYAxisPixelX p + horizontal off"
  "pd_pixelY (p1 (gridLine (yLabelToAxisTick p xs ys l off))) = scale_apply ys (label_value l)"
  "pd_pixelY (p2 (gridLine (yLabelToAxisTick p xs ys l off))) = scale_apply ys (label_value l)"
  "pd_pixelX (p1 (gridLine (yLabelToAxisTick p xs ys l off)))
     = scale_apply xs (scale_invert xs (chartLeftPixel p - yStartExtend p))"
  "pd_pixelX (p2 (gridLine (yLabelToAxisTick p xs ys l off)))
     = scale_apply xs (scale_invert xs (chartRightPixel p + yEndExtend p))"
  by (simp_all add: yLabelToAxisTick_def yTextLabelProps_def yTickToGridLine_def Let_def)

lemma label_of_tick:
  "\<lparr>label_value = tick_x (xLabelToAxisTick p xs ys l off),
    label_text = tick_text (xLabelToAxisTick p xs ys l off)\<rparr> = l"
  "\<lparr>label_value = tick_y (yLabelToAxisTick p xs ys l off),
    label_text = tick_text (yLabelToAxisTick p xs ys l off)\<rparr> = l"
  by (simp_all add: xLabelToAxisTick_fields yLabelToAxisTick_fields)



subsection \<open>The sample inputs, evaluated\<close>

lemmas tick_building =
  xAxisTicks_def yAxisTicks_def toXAxisTicks_def toYAxisTicks_def xTicks_def yTicks_def
  xLabelToAxisTick_def yLabelToAxisTick_def xLabelToPixelOffset_def yLabelToPixelOffset_def
  xTextLabelProps_def yTextLabelProps_def xTickToGridLine_def yTickToGridLine_def
  defaultXAxisPixelY_def defaultYAxisPixelX_def xAxisLocation_def yAxisLocation_def
  xLocationToPixelY_def yLocationToPixelX_def
  xStartExtend_def xEndExtend_def yStartExtend_def yEndExtend_def number_or_def
  DEFAULT_XAXIS_TOP_EXTEND_def DEFAULT_XAXIS_BOTTOM_EXTEND_def
  DEFAULT_YAXIS_LEFT_EXTEND_def DEFAULT_YAXIS_RIGHT_EXTEND_def DEFAULT_OFFSET_def
  scale_invert_def

lemma decorated_scales:
  "scales lib decorated_props =
     Inr (\<lparr>scale_kind = ScaleLinear, scale_domain = (0, 10), scale_range = (0, 100)\<rparr>,
          \<lparr>scale_kind = ScaleLinear, scale_domain = (0, 10), scale_range = (100, 0)\<rparr>)"
  by (simp add: decorated_props_def example_props_def empty_xAxis_def empty_yAxis_def
      scale_building chart_pixels)

lemma decorated_xAxisTicks: "xAxisTicks lib decorated_props = Inr [decorated_xtick]"
  unfolding xAxisTicks_def decorated_scales
  by (simp add: decorated_props_def example_props_def empty_xAxis_def empty_yAxis_def
      decorated_xtick_def tick_building chart_pixels scale_maps Let_def)

lemma decorated_yAxisTicks: "yAxisTicks lib decorated_props = Inr [decorated_ytick]"
  unfolding yAxisTicks_def decorated_scales
  by (simp add: decorated_props_def example_props_def empty_xAxis_def empty_yAxis_def
      decorated_ytick_def tick_building chart_pixels scale_maps Let_def)






subsection \<open>Gridline extensions and label positions\<close>


lemma chart_pixels_xAxis_update [simp]:
  "chartBottomPixel (p\<lparr>xAxis := a\<rparr>) = chartBottomPixel p"
  "chartTopPixel (p\<lparr>xAxis := a\<rparr>) = chartTopPixel p"
  "chartLeftPixel (p\<lparr>xAxis := a\<rparr>) = chartLeftPixel p"
  "chartRightPixel (p\<lparr>xAxis := a\<rparr>) = chartRightPixel p"
  by (simp_all add: chart_pixels)

lemma chart_pixels_yAxis_update [simp]:
  "chartBottomPixel (p\<lparr>yAxis := a\<rparr>) = chartBottomPixel p"
  "chartTopPixel (p\<lparr>yAxis := a\<rparr>) = chartTopPixel p"
  "chartLeftPixel (p\<lparr>yAxis := a\<rparr>) = chartLeftPixel p"
  "chartRightPixel (p\<lparr>yAxis := a\<rparr>) = chartRightPixel p"
  by (simp_all add: chart_pixels)







subsection \<open>Tick lists\<close>

lemma xAxisTicks_of_scales:
  assumes "scales lib p = Inr (xs, ys)"
  shows "xAxisTicks lib p = Inr (toXAxisTicks lib p xs ys (xTicks lib p xs))"
  using assms by (simp add: xAxisTicks_def)

lemma yAxisTicks_of_scales:
  assumes "scales lib p = Inr (xs, ys)"
  shows "yAxisTicks lib p = Inr (toYAxisTicks lib p xs ys (yTicks lib p ys))"
  using assms by (simp add: yAxisTicks_def)

lemma toXAxisTicks_labels:
  "map (\<lambda>t. \<lparr>label_value = tick_x t, label_text = tick_text t\<rparr>)
     (toXAxisTicks lib p xs ys (map TickLabel ls)) = ls"
  by (rule nth_equalityI)
    (simp_all add: toXAxisTicks_def nth_enumerate_eq xLabelToAxisTick_fields)

lemma toYAxisTicks_labels:
  "map (\<lambda>t. \<lparr>label_value = tick_y t, label_text = tick_text t\<rparr>)
     (toYAxisTicks lib p xs ys (map TickLabel ls)) = ls"
  by (rule nth_equalityI)
    (simp_all add: toYAxisTicks_def nth_enumerate_eq yLabelToAxisTick_fields)

lemma toXAxisTicks_values:
  "map (\<lambda>t. (tick_x t, tick_text t)) (toXAxisTicks lib p xs ys (map TickValue vs))
     = map (\<lambda>v. (v, xFormatFunction lib p xs v)) vs"
  by (rule nth_equalityI)
    (simp_all add: toXAxisTicks_def nth_enumerate_eq xTickToAxisTick_def Let_def
      xLabelToAxisTick_fields)

lemma toYAxisTicks_values:
  "map (\<lambda>t. (tick_y t, tick_text t)) (toYAxisTicks lib p xs ys (map TickValue vs))
     = map (\<lambda>v. (v, yFormatFunction lib p ys v)) vs"
  by (rule nth_equalityI)
    (simp_all add: toYAxisTicks_def nth_enumerate_eq yTickToAxisTick_def Let_def
      yLabelToAxisTick_fields)

lemma x_ticks_from_labels:
  assumes "scales lib p = Inr (xs, ys)" and "xAxisTicks lib p = Inr xts"
  shows "(\<forall>ls. Option.bind (xAxis p) x_labels = Some (LabelArray ls) \<longrightarrow>
            xTicks lib p xs = map TickLabel ls
          \<and> map (\<lambda>t. \<lparr>label_value = tick_x t, label_text = tick_text t\<rparr>) xts = ls)
       \<and> (\<forall>n. Option.bind (xAxis p) x_labels = Some (LabelCount n) \<longrightarrow>
            xTicks lib p xs = map TickValue (scale_ticks lib xs n)
          \<and> map (\<lambda>t. (tick_x t, tick_text t)) xts =
              map (\<lambda>v. (v, scale_tickFormat lib xs n (Option.bind (xAxis p) formatSpecifier) v))
                (scale_ticks lib xs n))
       \<and> (Option.bind (xAxis p) x_labels = None \<longrightarrow>
            xTicks lib p xs = map TickValue (scale_ticks lib xs (of_nat (length (data p))))
          \<and> map (\<lambda>t. (tick_x t, tick_text t)) xts =
              map (\<lambda>v. (v, scale_tickFormat lib xs (of_nat (length (data p)))
                             (Option.bind (xAxis p) formatSpecifier) v))
                (scale_ticks lib xs (of_nat (length (data p)))))"
proof -
  from xAxisTicks_of_scales [OF assms(1)] assms(2)
  have xts: "xts = toXAxisTicks lib p xs ys (xTicks lib p xs)" by simp
  show ?thesis
  proof (intro conjI allI impI)
    fix ls assume l: "Option.bind (xAxis p) x_labels = Some (LabelArray ls)"
    then show t: "xTicks lib p xs = map TickLabel ls" by (simp add: xTicks_def)
    show "map (\<lambda>t. \<lparr>label_value = tick_x t, label_text = tick_text t\<rparr>) xts = ls"
      unfolding xts t by (rule toXAxisTicks_labels)
  next
    fix n assume l: "Option.bind (xAxis p) x_labels = Some (LabelCount n)"
    then show t: "xTicks lib p xs = map TickValue (scale_ticks lib xs n)"
      by (simp add: xTicks_def xTickCount_def)
    from l have f: "xFormatFunction lib p xs =
        scale_tickFormat lib xs n (Option.bind (xAxis p) formatSpecifier)"
      by (simp add: xFormatFunction_def xTickCount_def)
    show "map (\<lambda>t. (tick_x t, tick_text t)) xts =
              map (\<lambda>v. (v, scale_tickFormat lib xs n (Option.bind (xAxis p) formatSpecifier) v))
                (scale_ticks lib xs n)"
      unfolding xts t toXAxisTicks_values f ..
  next
    assume l: "Option.bind (xAxis p) x_labels = None"
    then show t: "xTicks lib p xs = map TickValue (scale_ticks lib xs (of_nat (length (data p))))"
      by (simp add: xTicks_def xTickCount_def)
    from l have f: "xFormatFunction lib p xs =
        scale_tickFormat lib xs (of_nat (length (data p))) (Option.bind (xAxis p) formatSpecifier)"
      by (simp add: xFormatFunction_def xTickCount_def)
    show "map (\<lambda>t. (tick_x t, tick_text t)) xts =
              map (\<lambda>v. (v, scale_tickFormat lib xs (of_nat (length (data p)))
                             (Option.bind (xAxis p) formatSpecifier) v))
                (scale_ticks lib xs (of_nat (length (data p))))"
      unfolding xts t toXAxisTicks_values f ..
  qed
qed

lemma y_ticks_from_labels:
  assumes "scales lib p = Inr (xs, ys)" and "yAxisTicks lib p = Inr yts"
  shows "(\<forall>ls. Option.bind (yAxis p) y_labels = Some (LabelArray ls) \<longrightarrow>
            yTicks lib p ys = map TickLabel ls
          \<and> map (\<lambda>t. \<lparr>label_value = tick_y t, label_text = tick_text t\<rparr>) yts = ls)
       \<and> (\<forall>n. Option.bind (yAxis p) y_labels = Some (LabelCount n) \<longrightarrow>
            yTicks lib p ys = map TickValue (scale_ticks lib ys n)
          \<and> map (\<lambda>t. (tick_y t, tick_text t)) yts =
              map (\<lambda>v. (v, scale_tickFormat lib ys n (Option.bind (yAxis p) formatSpecifier) v))
                (scale_ticks lib ys n))
       \<and> (Option.bind (yAxis p) y_labels = None \<longrightarrow>
            yTicks lib p ys = map TickValue (scale_ticks lib ys (of_nat (length (data p))))
          \<and> map (\<lambda>t. (tick_y t, tick_text t)) yts =
              map (\<lambda>v. (v, scale_tickFormat lib ys (of_nat (length (data p)))
                             (Option.bind (yAxis p) formatSpecifier) v))
                (scale_ticks lib ys (of_nat (length (data p)))))"
proof -
  from yAxisTicks_of_scales [OF assms(1)] assms(2)
  have yts: "yts = toYAxisTicks lib p xs ys (yTicks lib p ys)" by simp
  show ?thesis
  proof (intro conjI allI impI)
    fix ls assume l: "Option.bind (yAxis p) y_labels = Some (LabelArray ls)"
    then show t: "yTicks lib p ys = map TickLabel ls" by (simp add: yTicks_def)
    show "map (\<lambda>t. \<lparr>label_value = tick_y t, label_text = tick_text t\<rparr>) yts = ls"
      unfolding yts t by (rule toYAxisTicks_labels)
  next
    fix n assume l: "Option.bind (yAxis p) y_labels = Some (LabelCount n)"
    then show t: "yTicks lib p ys = map TickValue (scale_ticks lib ys n)"
      by (simp add: yTicks_def yTickCount_def)
    from l have f: "yFormatFunction lib p ys =
        scale_tickFormat lib ys n (Option.bind (yAxis p) formatSpecifier)"
      by (simp add: yFormatFunction_def yTickCount_def)
    show "map (\<lambda>t. (tick_y t, tick_text t)) yts =
              map (\<lambda>v. (v, scale_tickFormat lib ys n (Option.bind (yAxis p) formatSpecifier) v))
                (scale_ticks lib ys n)"
      unfolding yts t toYAxisTicks_values f ..
  next
    assume l: "Option.bind (yAxis p) y_labels = None"
    then show t: "yTicks lib p ys = map TickValue (scale_ticks lib ys (of_nat (length (data p))))"
      by (simp add: yTicks_def yTickCount_def)
    from l have f: "yFormatFunction lib p ys =
        scale_tickFormat lib ys (of_nat (length (data p))) (Option.bind (yAxis p) formatSpecifier)"
      by (simp add: yFormatFunction_def yTickCount_def)
    show "map (\<lambda>t. (tick_y t, tick_text t)) yts =
              map (\<lambda>v. (v, scale_tickFormat lib ys (of_nat (length (data p)))
                             (Option.bind (yAxis p) formatSpecifier) v))
                (scale_ticks lib ys (of_nat (length (data p))))"
      unfolding yts t toYAxisTicks_values f ..
  qed
qed

lemma count_scales:
  "scales lib count_props =
     Inr (\<lparr>scale_kind = ScaleLinear, scale_domain = (0, 10), scale_range = (0, 100)\<rparr>,
          \<lparr>scale_kind = ScaleLinear, scale_domain = (0, 10), scale_range = (100, 0)\<rparr>)"
  by (simp add: count_props_def example_props_def empty_xAxis_def empty_yAxis_def
      scale_building chart_pixels)

subsection \<open>Numbers that are not finite\<close>

lemma js_reduce_nonempty:
  assumes "array \<noteq> []"
  shows "\<exists>m. reduce f array = Inr m"
  using assms by (cases array) (simp_all add: reduce_def)

lemma js_defaultDomain_empty: "js_defaultDomain [] key = Inl TypeError"
  by (simp add: js_defaultDomain_def js_min_def reduce_def)

lemma js_defaultDomain_nonempty:
  assumes "dat \<noteq> []"
  shows "\<exists>d. js_defaultDomain dat key = Inr d"
proof -
  let ?vs = "map (\<lambda>e. case key of KeyX \<Rightarrow> js_x e | KeyY \<Rightarrow> js_y e) dat"
  from assms have ne: "?vs \<noteq> []" by simp
  from js_reduce_nonempty [OF ne] obtain lo where "js_min ?vs = Inr lo"
    unfolding js_min_def by blast
  moreover from js_reduce_nonempty [OF ne] obtain hi where "js_max ?vs = Inr hi"
    unfolding js_max_def by blast
  ultimately show ?thesis by (simp add: js_defaultDomain_def Let_def)
qed

lemma js_xDomain_error_iff:
  "(js_xDomain q = Inl TypeError) = (js_visibleX q = None \<and> js_data q = [])"
proof (cases "js_visibleX q")
  case None
  show ?thesis
  proof (cases "js_data q = []")
    case True
    with None show ?thesis by (simp add: js_xDomain_def js_defaultDomain_empty)
  next
    case False
    from js_defaultDomain_nonempty [OF False, of KeyX] False None show ?thesis
      by (auto simp: js_xDomain_def)
  qed
next
  case (Some v)
  then show ?thesis by (simp add: js_xDomain_def)
qed

lemma js_yDomain_error_iff:
  "(js_yDomain q = Inl TypeError) = (js_visibleY q = None \<and> js_data q = [])"
proof (cases "js_visibleY q")
  case None
  show ?thesis
  proof (cases "js_data q = []")
    case True
    with None show ?thesis by (simp add: js_yDomain_def js_defaultDomain_empty)
  next
    case False
    from js_defaultDomain_nonempty [OF False, of KeyY] False None show ?thesis
      by (auto simp: js_yDomain_def)
  qed
next
  case (Some v)
  then show ?thesis by (simp add: js_yDomain_def)
qed

lemma js_scales_error_iff:
  "(js_scales q = Inl TypeError) = (js_xDomain q = Inl TypeError \<or> js_yDomain q = Inl TypeError)"
  by (auto simp: js_scales_def error_is_TypeError split: sum.splits)

lemma js_scales_total:
  "js_scales q = Inl TypeError \<or> (\<exists>xs ys. js_scales q = Inr (xs, ys))"
  by (cases "js_scales q") (auto simp: error_is_TypeError)

lemma js_dotData_Inr:
  assumes "js_scales q = Inr (xs, ys)"
  shows "js_dotData q =
     Inr (map (\<lambda>d. (js_scale_apply xs (js_x d), js_scale_apply ys (js_y d))) (js_data q))"
  using assms by (simp add: js_dotData_def)

lemma js_nonempty_produces:
  assumes "js_data q \<noteq> []"
  shows "\<exists>xs ys. js_scales q = Inr (xs, ys)
     \<and> js_dotData q =
         Inr (map (\<lambda>d. (js_scale_apply xs (js_x d), js_scale_apply ys (js_y d))) (js_data q))"
proof -
  from assms have "js_scales q \<noteq> Inl TypeError"
    by (simp add: js_scales_error_iff js_xDomain_error_iff js_yDomain_error_iff)
  with js_scales_total [of q] obtain xs ys where "js_scales q = Inr (xs, ys)" by blast
  with js_dotData_Inr [OF this] show ?thesis by blast
qed

lemma js_scale_apply_infinite:
  "js_scale_apply \<lparr>js_domain = (Finite a, PosInfinity), js_range = (Finite r0, Finite r1)\<rparr>
     PosInfinity = Some NaN"
  by (simp add: js_scale_apply_def js_bimap_def js_normalize_def js_interpolateNumber_def
      js_minus_def js_truthy_def Let_def)

lemma js_scale_apply_NaN: "js_scale_apply s NaN = None"
  by (simp add: js_scale_apply_def)

lemma js_bimap_finite:
  "js_bimap (Finite d0, Finite d1) (Finite r0, Finite r1) (Finite v)
     = Finite (bimap (d0, d1) (r0, r1) v)"
  by (simp add: js_bimap_def js_normalize_def js_interpolateNumber_def js_minus_def
      js_truthy_def Let_def bimap_def normalize_def interpolateNumber_def)

lemmas js_building =
  js_dotData_def js_scales_def js_xDomain_def js_yDomain_def js_defaultDomain_def
  js_min_def js_max_def reduce_def js_chartLeftPixel_def js_chartRightPixel_def
  js_chartTopPixel_def js_chartBottomPixel_def or_default_def js_scale_apply_def
  js_bimap_def js_normalize_def js_interpolateNumber_def js_minus_def js_truthy_def
  infinity_of_def

lemma infinite_dots:
  "js_dotData infinite_props =
     Inr [(Some (Finite 0), Some (Finite 100)), (Some NaN, Some (Finite 0))]"
  by (simp add: infinite_props_def js_building Let_def)

section \<open>Dots and the chart rectangle\<close>

text \<open>
  Claim C1, as stated, fails when the paddings exceed the size. With a width of 10 and
  the default horizontal paddings (20 on the left, 10 on the right) the x range runs from
  pixel 20 down to pixel 0: the dots of the two data points, both inside the inferred
  domain, sit at pixelX 20 and pixelX 0, and neither satisfies
  \<open>paddingLeft \<le> pixelX \<and> pixelX \<le> width - paddingRight\<close>, which here asks for
  \<open>20 \<le> pixelX \<and> pixelX \<le> 0\<close>.
\<close>

theorem narrow_chart_counterexample:
  "scales sample_d3 narrow_props =
     Inr (\<lparr>scale_kind = ScaleLinear, scale_domain = (0, 10), scale_range = (20, 0)\<rparr>,
          \<lparr>scale_kind = ScaleLinear, scale_domain = (0, 10), scale_range = (100, 0)\<rparr>)
   \<and> data narrow_props = [\<lparr>datum_x = Num 0, datum_y = Num 0\<rparr>, \<lparr>datum_x = Num 10, datum_y = Num 10\<rparr>]
   \<and> min (0::real) 10 \<le> valueOf (Num 0) \<and> valueOf (Num 0) \<le> max (0::real) 10
   \<and> min (0::real) 10 \<le> valueOf (Num 10) \<and> valueOf (Num 10) \<le> max (0::real) 10
   \<and> dotData sample_d3 narrow_props = Inr [(20, 100), (0, 0)]
   \<and> or_default (paddingLeft narrow_props) DEFAULT_PADDING_LEFT = 20
   \<and> width narrow_props - or_default (paddingRight narrow_props) DEFAULT_PADDING_RIGHT = 0
   \<and> \<not> (or_default (paddingLeft narrow_props) DEFAULT_PADDING_LEFT \<le> (20::real)
        \<and> (20::real) \<le> width narrow_props - or_default (paddingRight narrow_props) DEFAULT_PADDING_RIGHT)
   \<and> \<not> (or_default (paddingLeft narrow_props) DEFAULT_PADDING_LEFT \<le> (0::real)
        \<and> (0::real) \<le> width narrow_props - or_default (paddingRight narrow_props) DEFAULT_PADDING_RIGHT)"
proof -
  have s: "scales sample_d3 narrow_props =
     Inr (\<lparr>scale_kind = ScaleLinear, scale_domain = (0, 10), scale_range = (20, 0)\<rparr>,
          \<lparr>scale_kind = ScaleLinear, scale_domain = (0, 10), scale_range = (100, 0)\<rparr>)"
    by (simp add: narrow_props_def example_props_def scale_building chart_pixels)
  have d: "dotData sample_d3 narrow_props = Inr [(20, 100), (0, 0)]"
    unfolding dotData_def s by (simp add: narrow_props_def example_props_def scale_maps)
  have r: "data narrow_props = [\<lparr>datum_x = Num 0, datum_y = Num 0\<rparr>, \<lparr>datum_x = Num 10, datum_y = Num 10\<rparr>]"
    "or_default (paddingLeft narrow_props) DEFAULT_PADDING_LEFT = 20"
    "width narrow_props - or_default (paddingRight narrow_props) DEFAULT_PADDING_RIGHT = 0"
    by (simp_all add: narrow_props_def example_props_def chart_pixels)
  show ?thesis unfolding r using s d r(1) by simp
qed

text \<open>
  Claim C1, amended. In exact arithmetic: let the chart rectangle be non-empty,
  \<open>paddingLeft \<le> width - paddingRight\<close> and \<open>paddingTop \<le> height - paddingBottom\<close> (absent
  paddings taking their defaults). Then for every datum of the data array whose x value
  lies between the two bounds of the x scale's domain and whose y value lies between the
  two bounds of the y scale's domain (the domains as they are after any visible range and
  any nicing), the dot computed for it by \<^verbatim>\<open>dotData\<close> is \<open>(xScale(d.x), yScale(d.y))\<close> and
  lies in the rectangle: \<open>paddingLeft \<le> pixelX \<le> width - paddingRight\<close> and
  \<open>paddingTop \<le> pixelY \<le> height - paddingBottom\<close>. (The code computes the scale's map
  in doubles, whose result can differ from the exact one in the last digits: a dot that
  is exactly on an edge of the rectangle, as every dot of a rectangle of width 0 is, can
  come out beyond that edge by such a rounding error.)
\<close>

theorem dots_inside_chart_rectangle:
  assumes "scales lib p = Inr (xs, ys)"
    and "chartLeftPixel p \<le> chartRightPixel p" and "chartTopPixel p \<le> chartBottomPixel p"
    and "i < length (data p)"
    and "min (fst (scale_domain xs)) (snd (scale_domain xs)) \<le> valueOf (datum_x (data p ! i))"
    and "valueOf (datum_x (data p ! i)) \<le> max (fst (scale_domain xs)) (snd (scale_domain xs))"
    and "min (fst (scale_domain ys)) (snd (scale_domain ys)) \<le> valueOf (datum_y (data p ! i))"
    and "valueOf (datum_y (data p ! i)) \<le> max (fst (scale_domain ys)) (snd (scale_domain ys))"
  shows "\<exists>dots. dotData lib p = Inr dots \<and> length dots = length (data p)
     \<and> dots ! i = (scale_apply xs (datum_x (data p ! i)), scale_apply ys (datum_y (data p ! i)))
     \<and> chartLeftPixel p \<le> fst (dots ! i) \<and> fst (dots ! i) \<le> chartRightPixel p
     \<and> chartTopPixel p \<le> snd (dots ! i) \<and> snd (dots ! i) \<le> chartBottomPixel p"
proof -
  let ?dots = "map (\<lambda>d. (scale_apply xs (datum_x d), scale_apply ys (datum_y d))) (data p)"
  from scales_shape [OF assms(1)] have
    rx: "scale_range xs = (chartLeftPixel p, chartRightPixel p)" and
    ry: "scale_range ys = (chartBottomPixel p, chartTopPixel p)" by simp_all
  have dots: "dotData lib p = Inr ?dots" by (rule dotData_Inr [OF assms(1)])
  have nth: "?dots ! i = (scale_apply xs (datum_x (data p ! i)), scale_apply ys (datum_y (data p ! i)))"
    using assms(4) by simp
  from bimap_between [OF assms(5,6), of "scale_range xs"] assms(2)
  have x: "chartLeftPixel p \<le> scale_apply xs (datum_x (data p ! i))"
    "scale_apply xs (datum_x (data p ! i)) \<le> chartRightPixel p"
    by (simp_all add: scale_apply_def rx)
  from bimap_between [OF assms(7,8), of "scale_range ys"] assms(3)
  have y: "chartTopPixel p \<le> scale_apply ys (datum_y (data p ! i))"
    "scale_apply ys (datum_y (data p ! i)) \<le> chartBottomPixel p"
    by (simp_all add: scale_apply_def ry)
  show ?thesis
  proof (intro exI conjI)
    show "dotData lib p = Inr ?dots" by (rule dots)
    show "length ?dots = length (data p)" by simp
    show "?dots ! i = (scale_apply xs (datum_x (data p ! i)), scale_apply ys (datum_y (data p ! i)))"
      by (rule nth)
    show "chartLeftPixel p \<le> fst (?dots ! i)" "fst (?dots ! i) \<le> chartRightPixel p"
      "chartTopPixel p \<le> snd (?dots ! i)" "snd (?dots ! i) \<le> chartBottomPixel p"
      unfolding nth using x y by simp_all
  qed
qed

text \<open>
  The amended claim C1 on the spec's example: both dots are computed, and the second one,
  at \<open>(100, 0)\<close>, is inside the rectangle from \<open>(0, 0)\<close> to \<open>(100, 100)\<close>.
\<close>

theorem dots_inside_chart_rectangle_witness:
  "dotData sample_d3 example_props = Inr [(0, 100), (100, 0)]
   \<and> chartLeftPixel example_props \<le> 100 \<and> (100::real) \<le> chartRightPixel example_props
   \<and> chartTopPixel example_props \<le> 0 \<and> (0::real) \<le> chartBottomPixel example_props"
proof -
  have s: "scales sample_d3 example_props =
     Inr (\<lparr>scale_kind = ScaleLinear, scale_domain = (0, 10), scale_range = (0, 100)\<rparr>,
          \<lparr>scale_kind = ScaleLinear, scale_domain = (0, 10), scale_range = (100, 0)\<rparr>)"
    by (simp add: example_props_def scale_building chart_pixels)
  have c: "dotData sample_d3 example_props = Inr [(0, 100), (100, 0)]"
    unfolding dotData_def s by (simp add: example_props_def scale_maps)
  have "\<exists>dots. dotData sample_d3 example_props = Inr dots \<and> length dots = length (data example_props)
     \<and> dots ! 1 = (scale_apply \<lparr>scale_kind = ScaleLinear, scale_domain = (0, 10), scale_range = (0, 100)\<rparr>
                      (datum_x (data example_props ! 1)),
                   scale_apply \<lparr>scale_kind = ScaleLinear, scale_domain = (0, 10), scale_range = (100, 0)\<rparr>
                      (datum_y (data example_props ! 1)))
     \<and> chartLeftPixel example_props \<le> fst (dots ! 1) \<and> fst (dots ! 1) \<le> chartRightPixel example_props
     \<and> chartTopPixel example_props \<le> snd (dots ! 1) \<and> snd (dots ! 1) \<le> chartBottomPixel example_props"
    by (rule dots_inside_chart_rectangle [OF s])
      (simp_all add: example_props_def chart_pixels)
  with c show ?thesis by auto
qed

section \<open>The example of the spec\<close>

text \<open>
  Claim C2. For \<^verbatim>\<open>data = [{x:0,y:0},{x:10,y:10}]\<close>, width 100, height 100 and the four
  paddings 0, with no axis decoration (so no nicing and no visible range), whatever the
  scaling library does for ticks and steps: the x scale is linear with domain
  \<open>[0, 10]\<close> and range \<open>[0, 100]\<close>, the y scale is linear with domain \<open>[0, 10]\<close> and
  range \<open>[100, 0]\<close>; the x scale maps 0 to pixel 0 and 10 to pixel 100, the y scale maps 0
  to pixel 100 and 10 to pixel 0.
\<close>

theorem example_scales:
  "scales lib example_props =
     Inr (\<lparr>scale_kind = ScaleLinear, scale_domain = (0, 10), scale_range = (0, 100)\<rparr>,
          \<lparr>scale_kind = ScaleLinear, scale_domain = (0, 10), scale_range = (100, 0)\<rparr>)
   \<and> scale_apply \<lparr>scale_kind = ScaleLinear, scale_domain = (0, 10), scale_range = (0, 100)\<rparr> (Num 0) = 0
   \<and> scale_apply \<lparr>scale_kind = ScaleLinear, scale_domain = (0, 10), scale_range = (0, 100)\<rparr> (Num 10) = 100
   \<and> scale_apply \<lparr>scale_kind = ScaleLinear, scale_domain = (0, 10), scale_range = (100, 0)\<rparr> (Num 0) = 100
   \<and> scale_apply \<lparr>scale_kind = ScaleLinear, scale_domain = (0, 10), scale_range = (100, 0)\<rparr> (Num 10) = 0"
proof -
  have "scales lib example_props =
     Inr (\<lparr>scale_kind = ScaleLinear, scale_domain = (0, 10), scale_range = (0, 100)\<rparr>,
          \<lparr>scale_kind = ScaleLinear, scale_domain = (0, 10), scale_range = (100, 0)\<rparr>)"
    by (simp add: example_props_def scale_building chart_pixels)
  then show ?thesis by (simp add: scale_maps)
qed

section \<open>Gridlines and labels\<close>

text \<open>
  Claim C3, as stated, fails for a label offset with a non-zero component along the axis.
  With \<^verbatim>\<open>labelPixelOffset = {horizontal: 5, vertical: 0}\<close> on the x axis, the label of the
  tick at 0 is placed at \<open>x = 5\<close> while both ends of its gridline are at \<open>pixelX = 0\<close>;
  with \<^verbatim>\<open>{horizontal: 0, vertical: 3}\<close> on the y axis, the label of the tick at 10 is
  placed at \<open>y = 3\<close> while both ends of its gridline are at \<open>pixelY = 0\<close>.
\<close>

theorem label_offset_counterexample:
  "xAxisTicks sample_d3 decorated_props = Inr [decorated_xtick]
   \<and> text_x (textProps decorated_xtick) = 5
   \<and> pd_pixelX (p1 (gridLine decorated_xtick)) = 0
   \<and> pd_pixelX (p2 (gridLine decorated_xtick)) = 0
   \<and> text_x (textProps decorated_xtick) \<noteq> pd_pixelX (p1 (gridLine decorated_xtick))
   \<and> text_x (textProps decorated_xtick) \<noteq> pd_pixelX (p2 (gridLine decorated_xtick))
   \<and> yAxisTicks sample_d3 decorated_props = Inr [decorated_ytick]
   \<and> text_y (textProps decorated_ytick) = 3
   \<and> pd_pixelY (p1 (gridLine decorated_ytick)) = 0
   \<and> pd_pixelY (p2 (gridLine decorated_ytick)) = 0
   \<and> text_y (textProps decorated_ytick) \<noteq> pd_pixelY (p1 (gridLine decorated_ytick))
   \<and> text_y (textProps decorated_ytick) \<noteq> pd_pixelY (p2 (gridLine decorated_ytick))"
  by (simp add: decorated_xAxisTicks decorated_yAxisTicks decorated_xtick_def decorated_ytick_def)

text \<open>
  Claim C3, amended. For every generated x-axis tick, whatever the \<^verbatim>\<open>labelPixelOffset\<close>
  setting, both ends of the tick's gridline have \<open>pixelX\<close> equal to the tick's own
  \<open>pixelX\<close>, which is \<open>xScale\<close> of the tick's domain value; the label's text is placed at
  that coordinate plus the horizontal component of the offset computed for the tick (the
  given offset, the result of the given function for the label and its index, or 0 when
  the prop is absent). So label and gridline meet the axis at the same pixel exactly when
  that component is 0. Symmetrically for every y-axis tick, with \<open>pixelY\<close>, \<open>yScale\<close> and
  the vertical component.
\<close>

theorem gridline_meets_tick_pixel:
  assumes "scales lib p = Inr (xs, ys)"
    and "xAxisTicks lib p = Inr xts" and "yAxisTicks lib p = Inr yts"
  shows "(\<forall>i < length xts.
           tick_pixelX (xts ! i) = scale_apply xs (tick_x (xts ! i))
         \<and> pd_pixelX (p1 (gridLine (xts ! i))) = tick_pixelX (xts ! i)
         \<and> pd_pixelX (p2 (gridLine (xts ! i))) = tick_pixelX (xts ! i)
         \<and> text_x (textProps (xts ! i)) =
             tick_pixelX (xts ! i)
             + horizontal (xLabelToPixelOffset
                 \<lparr>label_value = tick_x (xts ! i), label_text = tick_text (xts ! i)\<rparr> i
                 (Option.bind (xAxis p) x_labelPixelOffset)))
       \<and> (\<forall>i < length yts.
           tick_pixelY (yts ! i) = scale_apply ys (tick_y (yts ! i))
         \<and> pd_pixelY (p1 (gridLine (yts ! i))) = tick_pixelY (yts ! i)
         \<and> pd_pixelY (p2 (gridLine (yts ! i))) = tick_pixelY (yts ! i)
         \<and> text_y (textProps (yts ! i)) =
             tick_pixelY (yts ! i)
             + vertical (yLabelToPixelOffset
                 \<lparr>label_value = tick_y (yts ! i), label_text = tick_text (yts ! i)\<rparr> i
                 (Option.bind (yAxis p) y_labelPixelOffset)))"
proof (intro conjI allI impI)
  fix i assume "i < length xts"
  from xAxisTicks_nth [OF assms(1,2) this] obtain l where
    t: "xts ! i = xLabelToAxisTick p xs ys l
          (xLabelToPixelOffset l i (Option.bind (xAxis p) x_labelPixelOffset))" by blast
  show "tick_pixelX (xts ! i) = scale_apply xs (tick_x (xts ! i))"
    and "pd_pixelX (p1 (gridLine (xts ! i))) = tick_pixelX (xts ! i)"
    and "pd_pixelX (p2 (gridLine (xts ! i))) = tick_pixelX (xts ! i)"
    and "text_x (textProps (xts ! i)) =
             tick_pixelX (xts ! i)
             + horizontal (xLabelToPixelOffset
                 \<lparr>label_value = tick_x (xts ! i), label_text = tick_text (xts ! i)\<rparr> i
                 (Option.bind (xAxis p) x_labelPixelOffset))"
    unfolding t label_of_tick by (simp_all add: xLabelToAxisTick_fields)
next
  fix i assume "i < length yts"
  from yAxisTicks_nth [OF assms(1,3) this] obtain l where
    t: "yts ! i = yLabelToAxisTick p xs ys l
          (yLabelToPixelOffset l i (Option.bind (yAxis p) y_labelPixelOffset))" by blast
  show "tick_pixelY (yts ! i) = scale_apply ys (tick_y (yts ! i))"
    and "pd_pixelY (p1 (gridLine (yts ! i))) = tick_pixelY (yts ! i)"
    and "pd_pixelY (p2 (gridLine (yts ! i))) = tick_pixelY (yts ! i)"
    and "text_y (textProps (yts ! i)) =
             tick_pixelY (yts ! i)
             + vertical (yLabelToPixelOffset
                 \<lparr>label_value = tick_y (yts ! i), label_text = tick_text (yts ! i)\<rparr> i
                 (Option.bind (yAxis p) y_labelPixelOffset))"
    unfolding t label_of_tick by (simp_all add: yLabelToAxisTick_fields)
qed

text \<open>
  The amended claim C3 on the decorated example: the x tick's gridline is at the tick's
  pixel and its label 5 pixels to the right; the y tick's gridline is at the tick's pixel
  and its label 3 pixels below.
\<close>

theorem gridline_meets_tick_pixel_witness:
  "pd_pixelX (p1 (gridLine decorated_xtick)) = tick_pixelX decorated_xtick
   \<and> pd_pixelX (p2 (gridLine decorated_xtick)) = tick_pixelX decorated_xtick
   \<and> text_x (textProps decorated_xtick) = tick_pixelX decorated_xtick + 5
   \<and> pd_pixelY (p1 (gridLine decorated_ytick)) = tick_pixelY decorated_ytick
   \<and> pd_pixelY (p2 (gridLine decorated_ytick)) = tick_pixelY decorated_ytick
   \<and> text_y (textProps decorated_ytick) = tick_pixelY decorated_ytick + 3"
proof -
  note t = gridline_meets_tick_pixel
    [OF decorated_scales [of sample_d3] decorated_xAxisTicks decorated_yAxisTicks]
  have ox: "horizontal (xLabelToPixelOffset
      \<lparr>label_value = tick_x decorated_xtick, label_text = tick_text decorated_xtick\<rparr> 0
      (Option.bind (xAxis decorated_props) x_labelPixelOffset)) = 5"
    by (simp add: decorated_props_def empty_xAxis_def xLabelToPixelOffset_def)
  have oy: "vertical (yLabelToPixelOffset
      \<lparr>label_value = tick_y decorated_ytick, label_text = tick_text decorated_ytick\<rparr> 0
      (Option.bind (yAxis decorated_props) y_labelPixelOffset)) = 3"
    by (simp add: decorated_props_def empty_yAxis_def yLabelToPixelOffset_def)
  from t have "pd_pixelX (p1 (gridLine ([decorated_xtick] ! 0))) = tick_pixelX ([decorated_xtick] ! 0)
     \<and> pd_pixelX (p2 (gridLine ([decorated_xtick] ! 0))) = tick_pixelX ([decorated_xtick] ! 0)
     \<and> text_x (textProps ([decorated_xtick] ! 0)) =
             tick_pixelX ([decorated_xtick] ! 0)
             + horizontal (xLabelToPixelOffset
                 \<lparr>label_value = tick_x ([decorated_xtick] ! 0),
                  label_text = tick_text ([decorated_xtick] ! 0)\<rparr> 0
                 (Option.bind (xAxis decorated_props) x_labelPixelOffset))"
    by simp
  with ox have x: "pd_pixelX (p1 (gridLine decorated_xtick)) = tick_pixelX decorated_xtick
   \<and> pd_pixelX (p2 (gridLine decorated_xtick)) = tick_pixelX decorated_xtick
   \<and> text_x (textProps decorated_xtick) = tick_pixelX decorated_xtick + 5"
    by simp
  from t have "pd_pixelY (p1 (gridLine ([decorated_ytick] ! 0))) = tick_pixelY ([decorated_ytick] ! 0)
     \<and> pd_pixelY (p2 (gridLine ([decorated_ytick] ! 0))) = tick_pixelY ([decorated_ytick] ! 0)
     \<and> text_y (textProps ([decorated_ytick] ! 0)) =
             tick_pixelY ([decorated_ytick] ! 0)
             + vertical (yLabelToPixelOffset
                 \<lparr>label_value = tick_y ([decorated_ytick] ! 0),
                  label_text = tick_text ([decorated_ytick] ! 0)\<rparr> 0
                 (Option.bind (yAxis decorated_props) y_labelPixelOffset))"
    by simp
  with oy have y: "pd_pixelY (p1 (gridLine decorated_ytick)) = tick_pixelY decorated_ytick
   \<and> pd_pixelY (p2 (gridLine decorated_ytick)) = tick_pixelY decorated_ytick
   \<and> text_y (textProps decorated_ytick) = tick_pixelY decorated_ytick + 3"
    by simp
  from x y show ?thesis by simp
qed

section \<open>Visible ranges and inferred domains\<close>




section \<open>Nicing\<close>

text \<open>
  Claim C5. Whatever the nice setting (absent, \<^verbatim>\<open>true\<close> or a tick count), the domain
  of the scale that \<^verbatim>\<open>maybeWithNice\<close> returns contains the domain \<open>[lo, hi]\<close> it was
  given: the new lower bound is at most \<open>lo\<close> and the new upper bound at least \<open>hi\<close>.
  For a linear scale this holds for every step the library may choose; for a time scale
  it holds when every calendar interval of the library rounds down with its \<open>floor\<close> and
  up with its \<open>ceil\<close>.
\<close>

theorem nice_never_narrows:
  assumes "scale_domain s = (lo, hi)" and "lo \<le> hi"
    and "scale_kind s = ScaleTime \<Longrightarrow>
           (\<forall>a b c i t. timeTickInterval lib a b c = Some i \<longrightarrow>
              interval_floor i t \<le> t \<and> t \<le> interval_ceil i t)"
  shows "fst (scale_domain (maybeWithNice lib s n)) \<le> lo
         \<and> hi \<le> snd (scale_domain (maybeWithNice lib s n))"
proof -
  have asc: "fst (scale_domain s) \<le> snd (scale_domain s)" using assms(1,2) by simp
  have niced: "fst (scale_domain (scale_nice lib s count)) \<le> lo
      \<and> hi \<le> snd (scale_domain (scale_nice lib s count))" for count
  proof (cases "scale_kind s")
    case ScaleLinear
    then show ?thesis
      using linear_nice_ascending [OF asc] assms(1) by (simp add: scale_nice_def Let_def)
  next
    case ScaleTime
    note contract = assms(3) [OF ScaleTime]
    show ?thesis
    proof (cases "timeTickInterval lib lo hi (case count of None \<Rightarrow> 10 | Some n \<Rightarrow> n)")
      case None
      with ScaleTime assms(1,2) show ?thesis by (simp add: scale_nice_def Let_def)
    next
      case (Some i)
      with contract have "interval_floor i lo \<le> lo" "hi \<le> interval_ceil i hi" by blast+
      with Some ScaleTime assms(1,2) show ?thesis
        by (simp add: scale_nice_def Let_def time_nice_def)
    qed
  qed
  show ?thesis
  proof (cases n)
    case None
    with assms(1,2) show ?thesis by (simp add: maybeWithNice_def)
  next
    case (Some np)
    then show ?thesis
      using niced assms(1,2) by (cases np) (simp_all add: maybeWithNice_def)
  qed
qed

text \<open>
  Claim C5 on concrete inputs: with a step of 5 the linear domain \<open>[3, 12]\<close> becomes
  \<open>[0, 15]\<close>; with whole-number intervals the time domain \<open>[5/2, 7/2]\<close> is widened
  too.
\<close>

theorem nice_never_narrows_witness:
  "scale_domain (maybeWithNice sample_d3
      \<lparr>scale_kind = ScaleLinear, scale_domain = (3, 12), scale_range = (0, 100)\<rparr>
      (Some NiceTrue)) = (0, 15)
   \<and> fst (scale_domain (maybeWithNice sample_d3
      \<lparr>scale_kind = ScaleLinear, scale_domain = (3, 12), scale_range = (0, 100)\<rparr>
      (Some NiceTrue))) \<le> 3
   \<and> 12 \<le> snd (scale_domain (maybeWithNice sample_d3
      \<lparr>scale_kind = ScaleLinear, scale_domain = (3, 12), scale_range = (0, 100)\<rparr>
      (Some NiceTrue)))
   \<and> fst (scale_domain (maybeWithNice sample_d3
      \<lparr>scale_kind = ScaleTime, scale_domain = (5 / 2, 7 / 2), scale_range = (0, 100)\<rparr>
      (Some (NiceCount 4)))) \<le> 5 / 2
   \<and> 7 / 2 \<le> snd (scale_domain (maybeWithNice sample_d3
      \<lparr>scale_kind = ScaleTime, scale_domain = (5 / 2, 7 / 2), scale_range = (0, 100)\<rparr>
      (Some (NiceCount 4))))"
proof -
  have computed: "scale_domain (maybeWithNice sample_d3
      \<lparr>scale_kind = ScaleLinear, scale_domain = (3, 12), scale_range = (0, 100)\<rparr>
      (Some NiceTrue)) = (0, 15)"
    by (simp add: maybeWithNice_def scale_nice_def linear_nice_def round_down_def round_up_def
        sample_d3_def Let_def)
  have linear: "fst (scale_domain (maybeWithNice sample_d3
      \<lparr>scale_kind = ScaleLinear, scale_domain = (3, 12), scale_range = (0, 100)\<rparr>
      (Some NiceTrue))) \<le> 3
   \<and> 12 \<le> snd (scale_domain (maybeWithNice sample_d3
      \<lparr>scale_kind = ScaleLinear, scale_domain = (3, 12), scale_range = (0, 100)\<rparr>
      (Some NiceTrue)))"
    by (rule nice_never_narrows) simp_all
  have contract: "\<forall>a b c i t. timeTickInterval sample_d3 a b c = Some i \<longrightarrow>
      interval_floor i t \<le> t \<and> t \<le> interval_ceil i t"
    by (auto simp: sample_d3_def)
  have time: "fst (scale_domain (maybeWithNice sample_d3
      \<lparr>scale_kind = ScaleTime, scale_domain = (5 / 2, 7 / 2), scale_range = (0, 100)\<rparr>
      (Some (NiceCount 4)))) \<le> 5 / 2
   \<and> 7 / 2 \<le> snd (scale_domain (maybeWithNice sample_d3
      \<lparr>scale_kind = ScaleTime, scale_domain = (5 / 2, 7 / 2), scale_range = (0, 100)\<rparr>
      (Some (NiceCount 4))))"
    by (rule nice_never_narrows) (simp_all add: contract)
  show ?thesis using computed linear time by simp
qed

section \<open>The kind of a scale\<close>

text \<open>
  Claim C6. When the scales are built, the x scale is a time scale if the data array has
  a first element and that element's x value is a Date, and a linear scale otherwise; the
  y scale is chosen in the same way from the first element's y value, independently of
  the x scale. Two inputs whose data arrays agree on the first element (or are both
  empty) get scales of the same kinds, whatever the other elements, the other props and
  the library are.
\<close>

theorem scale_kind_from_first_datum:
  assumes "scales lib p = Inr (xs, ys)"
  shows "scale_kind xs =
           (if data p \<noteq> [] \<and> instanceofDate (datum_x (hd (data p))) then ScaleTime else ScaleLinear)
       \<and> scale_kind ys =
           (if data p \<noteq> [] \<and> instanceofDate (datum_y (hd (data p))) then ScaleTime else ScaleLinear)
       \<and> (\<forall>lib' q xs' ys'.
             scales lib' q = Inr (xs', ys') \<and> take 1 (data q) = take 1 (data p) \<longrightarrow>
             scale_kind xs' = scale_kind xs \<and> scale_kind ys' = scale_kind ys)"
proof -
  from scales_shape [OF assms] have
    kx: "scale_kind xs = scaleKindFor (data p) KeyX" and
    ky: "scale_kind ys = scaleKindFor (data p) KeyY" by simp_all
  have first: "scale_kind xs =
           (if data p \<noteq> [] \<and> instanceofDate (datum_x (hd (data p))) then ScaleTime else ScaleLinear)
       \<and> scale_kind ys =
           (if data p \<noteq> [] \<and> instanceofDate (datum_y (hd (data p))) then ScaleTime else ScaleLinear)"
    unfolding kx ky scaleKindFor_first by (simp add: datum_get_def)
  have rest: "scale_kind xs' = scale_kind xs \<and> scale_kind ys' = scale_kind ys"
    if q: "scales lib' q = Inr (xs', ys')" and same: "take 1 (data q) = take 1 (data p)"
    for lib' q xs' ys'
  proof -
    from scales_shape [OF q] have
      kq: "scale_kind xs' = scaleKindFor (data q) KeyX"
        "scale_kind ys' = scaleKindFor (data q) KeyY"
      by simp_all
    have "scaleKindFor (data q) key = scaleKindFor (data p) key" for key
    proof -
      have "scaleKindFor (data q) key = scaleKindFor (take 1 (data q)) key"
        by (simp only: scaleKindFor_take)
      also have "\<dots> = scaleKindFor (take 1 (data p)) key" by (simp only: same)
      also have "\<dots> = scaleKindFor (data p) key" by (simp only: scaleKindFor_take)
      finally show ?thesis .
    qed
    then show ?thesis by (simp add: kq kx ky)
  qed
  show ?thesis using first rest by blast
qed

text \<open>
  Claim C6 on a concrete input: the first datum has a Date for x and a number for y, the
  second the other way round; the x scale is a time scale and the y scale a linear
  one.
\<close>

theorem scale_kind_from_first_datum_witness:
  "scales sample_d3 mixed_props =
     Inr (\<lparr>scale_kind = ScaleTime, scale_domain = (5, 1000), scale_range = (0, 100)\<rparr>,
          \<lparr>scale_kind = ScaleLinear, scale_domain = (1, 7), scale_range = (100, 0)\<rparr>)
   \<and> scale_kind \<lparr>scale_kind = ScaleTime, scale_domain = (5, 1000), scale_range = (0, 100)\<rparr> =
       (if data mixed_props \<noteq> [] \<and> instanceofDate (datum_x (hd (data mixed_props)))
        then ScaleTime else ScaleLinear)
   \<and> scale_kind \<lparr>scale_kind = ScaleLinear, scale_domain = (1, 7), scale_range = (100, 0)\<rparr> =
       (if data mixed_props \<noteq> [] \<and> instanceofDate (datum_y (hd (data mixed_props)))
        then ScaleTime else ScaleLinear)"
proof -
  have s: "scales sample_d3 mixed_props =
     Inr (\<lparr>scale_kind = ScaleTime, scale_domain = (5, 1000), scale_range = (0, 100)\<rparr>,
          \<lparr>scale_kind = ScaleLinear, scale_domain = (1, 7), scale_range = (100, 0)\<rparr>)"
    by (simp add: mixed_props_def example_props_def scale_building chart_pixels)
  from scale_kind_from_first_datum [OF s] show ?thesis using s by blast
qed

section \<open>Ticks\<close>

text \<open>
  Claim C7. On each axis: if the \<^verbatim>\<open>labels\<close> prop is an array, the ticks are exactly these
  labels, in order, each axis tick carrying its label's domain value and text unchanged;
  if it is a number \<open>n\<close>, the ticks are the values the scale generates for the count
  \<open>n\<close>, each with the text the scale's formatter for \<open>n\<close> and the format specifier gives
  it; if it is absent, the same with the count \<^verbatim>\<open>data.length\<close>.
\<close>

theorem ticks_from_labels_prop:
  assumes "scales lib p = Inr (xs, ys)"
    and "xAxisTicks lib p = Inr xts" and "yAxisTicks lib p = Inr yts"
  shows "((\<forall>ls. Option.bind (xAxis p) x_labels = Some (LabelArray ls) \<longrightarrow>
            xTicks lib p xs = map TickLabel ls
          \<and> map (\<lambda>t. \<lparr>label_value = tick_x t, label_text = tick_text t\<rparr>) xts = ls)
       \<and> (\<forall>n. Option.bind (xAxis p) x_labels = Some (LabelCount n) \<longrightarrow>
            xTicks lib p xs = map TickValue (scale_ticks lib xs n)
          \<and> map (\<lambda>t. (tick_x t, tick_text t)) xts =
              map (\<lambda>v. (v, scale_tickFormat lib xs n (Option.bind (xAxis p) formatSpecifier) v))
                (scale_ticks lib xs n))
       \<and> (Option.bind (xAxis p) x_labels = None \<longrightarrow>
            xTicks lib p xs = map TickValue (scale_ticks lib xs (of_nat (length (data p))))
          \<and> map (\<lambda>t. (tick_x t, tick_text t)) xts =
              map (\<lambda>v. (v, scale_tickFormat lib xs (of_nat (length (data p)))
                             (Option.bind (xAxis p) formatSpecifier) v))
                (scale_ticks lib xs (of_nat (length (data p))))))
      \<and> ((\<forall>ls. Option.bind (yAxis p) y_labels = Some (LabelArray ls) \<longrightarrow>
            yTicks lib p ys = map TickLabel ls
          \<and> map (\<lambda>t. \<lparr>label_value = tick_y t, label_text = tick_text t\<rparr>) yts = ls)
       \<and> (\<forall>n. Option.bind (yAxis p) y_labels = Some (LabelCount n) \<longrightarrow>
            yTicks lib p ys = map TickValue (scale_ticks lib ys n)
          \<and> map (\<lambda>t. (tick_y t, tick_text t)) yts =
              map (\<lambda>v. (v, scale_tickFormat lib ys n (Option.bind (yAxis p) formatSpecifier) v))
                (scale_ticks lib ys n))
       \<and> (Option.bind (yAxis p) y_labels = None \<longrightarrow>
            yTicks lib p ys = map TickValue (scale_ticks lib ys (of_nat (length (data p))))
          \<and> map (\<lambda>t. (tick_y t, tick_text t)) yts =
              map (\<lambda>v. (v, scale_tickFormat lib ys (of_nat (length (data p)))
                             (Option.bind (yAxis p) formatSpecifier) v))
                (scale_ticks lib ys (of_nat (length (data p))))))"
  by (rule conjI) (rule x_ticks_from_labels [OF assms(1,2)], rule y_ticks_from_labels [OF assms(1,3)])

text \<open>
  Claim C7 on concrete inputs: a label array on each axis, the counts 5 and 3, and no
  \<^verbatim>\<open>labels\<close> prop with two data points (count 2).
\<close>

theorem ticks_from_labels_prop_witness:
  "map (\<lambda>t. \<lparr>label_value = tick_x t, label_text = tick_text t\<rparr>) [decorated_xtick]
     = [\<lparr>label_value = Num 0, label_text = ''0''\<rparr>]
   \<and> map (\<lambda>t. \<lparr>label_value = tick_y t, label_text = tick_text t\<rparr>) [decorated_ytick]
     = [\<lparr>label_value = Num 10, label_text = ''10''\<rparr>]
   \<and> (\<exists>xts yts. xAxisTicks sample_d3 count_props = Inr xts
         \<and> yAxisTicks sample_d3 count_props = Inr yts
         \<and> map (\<lambda>t. (tick_x t, tick_text t)) xts = [(Num 0, []), (Num 5, []), (Num 10, [])]
         \<and> map (\<lambda>t. (tick_y t, tick_text t)) yts = [(Num 0, []), (Num 5, []), (Num 10, [])])
   \<and> (\<exists>xts yts. xAxisTicks sample_d3 example_props = Inr xts
         \<and> yAxisTicks sample_d3 example_props = Inr yts
         \<and> map (\<lambda>t. (tick_x t, tick_text t)) xts = [(Num 0, []), (Num 10, [])]
         \<and> map (\<lambda>t. (tick_y t, tick_text t)) yts = [(Num 0, []), (Num 10, [])])"
proof -
  let ?sx = "\<lparr>scale_kind = ScaleLinear, scale_domain = (0, 10), scale_range = (0, 100)\<rparr>"
  let ?sy = "\<lparr>scale_kind = ScaleLinear, scale_domain = (0, 10), scale_range = (100, 0)\<rparr>"
  note arrays = ticks_from_labels_prop
    [OF decorated_scales [of sample_d3] decorated_xAxisTicks decorated_yAxisTicks]
  have la: "Option.bind (xAxis decorated_props) x_labels
        = Some (LabelArray [\<lparr>label_value = Num 0, label_text = ''0''\<rparr>])"
    "Option.bind (yAxis decorated_props) y_labels
        = Some (LabelArray [\<lparr>label_value = Num 10, label_text = ''10''\<rparr>])"
    by (simp_all add: decorated_props_def empty_xAxis_def empty_yAxis_def)
  from arrays la have a:
    "map (\<lambda>t. \<lparr>label_value = tick_x t, label_text = tick_text t\<rparr>) [decorated_xtick]
       = [\<lparr>label_value = Num 0, label_text = ''0''\<rparr>]"
    "map (\<lambda>t. \<lparr>label_value = tick_y t, label_text = tick_text t\<rparr>) [decorated_ytick]
       = [\<lparr>label_value = Num 10, label_text = ''10''\<rparr>]"
    by blast+
  have cs: "scales sample_d3 count_props = Inr (?sx, ?sy)" by (rule count_scales)
  note counts = ticks_from_labels_prop
    [OF cs xAxisTicks_of_scales [OF cs] yAxisTicks_of_scales [OF cs]]
  have lc: "Option.bind (xAxis count_props) x_labels = Some (LabelCount 5)"
    "Option.bind (yAxis count_props) y_labels = Some (LabelCount 3)"
    "Option.bind (xAxis count_props) formatSpecifier = None"
    "Option.bind (yAxis count_props) formatSpecifier = None"
    by (simp_all add: count_props_def empty_xAxis_def empty_yAxis_def)
  have st: "scale_ticks sample_d3 ?sx 5 = [Num 0, Num 5, Num 10]"
    "scale_ticks sample_d3 ?sy 3 = [Num 0, Num 5, Num 10]"
    "scale_ticks sample_d3 ?sx 2 = [Num 0, Num 10]"
    "scale_ticks sample_d3 ?sy 2 = [Num 0, Num 10]"
    "scale_tickFormat sample_d3 s n None v = []" for s n v
    by (simp_all add: sample_d3_def)
  from counts lc(1) have
    "map (\<lambda>t. (tick_x t, tick_text t))
       (toXAxisTicks sample_d3 count_props ?sx ?sy (xTicks sample_d3 count_props ?sx))
     = map (\<lambda>v. (v, scale_tickFormat sample_d3 ?sx 5
                       (Option.bind (xAxis count_props) formatSpecifier) v))
         (scale_ticks sample_d3 ?sx 5)"
    by blast
  then have b1: "map (\<lambda>t. (tick_x t, tick_text t))
       (toXAxisTicks sample_d3 count_props ?sx ?sy (xTicks sample_d3 count_props ?sx))
     = [(Num 0, []), (Num 5, []), (Num 10, [])]"
    by (simp add: lc st)
  from counts lc(2) have
    "map (\<lambda>t. (tick_y t, tick_text t))
       (toYAxisTicks sample_d3 count_props ?sx ?sy (yTicks sample_d3 count_props ?sy))
     = map (\<lambda>v. (v, scale_tickFormat sample_d3 ?sy 3
                       (Option.bind (yAxis count_props) formatSpecifier) v))
         (scale_ticks sample_d3 ?sy 3)"
    by blast
  then have b2: "map (\<lambda>t. (tick_y t, tick_text t))
       (toYAxisTicks sample_d3 count_props ?sx ?sy (yTicks sample_d3 count_props ?sy))
     = [(Num 0, []), (Num 5, []), (Num 10, [])]"
    by (simp add: lc st)
  have es: "scales sample_d3 example_props = Inr (?sx, ?sy)"
    by (simp add: example_props_def scale_building chart_pixels)
  note absent = ticks_from_labels_prop
    [OF es xAxisTicks_of_scales [OF es] yAxisTicks_of_scales [OF es]]
  have ln: "Option.bind (xAxis example_props) x_labels = None"
    "Option.bind (yAxis example_props) y_labels = None"
    "Option.bind (xAxis example_props) formatSpecifier = None"
    "Option.bind (yAxis example_props) formatSpecifier = None"
    "real (length (data example_props)) = 2"
    by (simp_all add: example_props_def)
  from absent ln(1) have
    "map (\<lambda>t. (tick_x t, tick_text t))
       (toXAxisTicks sample_d3 example_props ?sx ?sy (xTicks sample_d3 example_props ?sx))
     = map (\<lambda>v. (v, scale_tickFormat sample_d3 ?sx (of_nat (length (data example_props)))
                       (Option.bind (xAxis example_props) formatSpecifier) v))
         (scale_ticks sample_d3 ?sx (of_nat (length (data example_props))))"
    by blast
  then have c1: "map (\<lambda>t. (tick_x t, tick_text t))
       (toXAxisTicks sample_d3 example_props ?sx ?sy (xTicks sample_d3 example_props ?sx))
     = [(Num 0, []), (Num 10, [])]"
    by (simp add: ln st)
  from absent ln(2) have
    "map (\<lambda>t. (tick_y t, tick_text t))
       (toYAxisTicks sample_d3 example_props ?sx ?sy (yTicks sample_d3 example_props ?sy))
     = map (\<lambda>v. (v, scale_tickFormat sample_d3 ?sy (of_nat (length (data example_props)))
                       (Option.bind (yAxis example_props) formatSpecifier) v))
         (scale_ticks sample_d3 ?sy (of_nat (length (data example_props))))"
    by blast
  then have c2: "map (\<lambda>t. (tick_y t, tick_text t))
       (toYAxisTicks sample_d3 example_props ?sx ?sy (yTicks sample_d3 example_props ?sy))
     = [(Num 0, []), (Num 10, [])]"
    by (simp add: ln st)
  have b: "\<exists>xts yts. xAxisTicks sample_d3 count_props = Inr xts
         \<and> yAxisTicks sample_d3 count_props = Inr yts
         \<and> map (\<lambda>t. (tick_x t, tick_text t)) xts = [(Num 0, []), (Num 5, []), (Num 10, [])]
         \<and> map (\<lambda>t. (tick_y t, tick_text t)) yts = [(Num 0, []), (Num 5, []), (Num 10, [])]"
    by (rule exI, rule exI, intro conjI)
      (rule xAxisTicks_of_scales [OF cs], rule yAxisTicks_of_scales [OF cs], rule b1, rule b2)
  have c: "\<exists>xts yts. xAxisTicks sample_d3 example_props = Inr xts
         \<and> yAxisTicks sample_d3 example_props = Inr yts
         \<and> map (\<lambda>t. (tick_x t, tick_text t)) xts = [(Num 0, []), (Num 10, [])]
         \<and> map (\<lambda>t. (tick_y t, tick_text t)) yts = [(Num 0, []), (Num 10, [])]"
    by (rule exI, rule exI, intro conjI)
      (rule xAxisTicks_of_scales [OF es], rule yAxisTicks_of_scales [OF es], rule c1, rule c2)
  from a b c show ?thesis by blast
qed

section \<open>The extent of a gridline\<close>




section \<open>Malformed input\<close>

text \<open>
  Claim C9. Nothing is caught, and only the reduction of an empty array raises. With an
  empty data array, building the scales raises that error exactly when the visible range
  of at least one axis is absent; and when building the scales raises, so do the dots and
  the ticks of both axes. With a non-empty data array nothing raises: the scales are
  built, every datum gets a dot, and the ticks of both axes are computed. A scale whose
  domain has collapsed to a single point gives degenerate output: it maps every value to
  the middle of its pixel range. The same holds on the numbers that are not finite: with
  a non-empty data array of any numbers (infinities and NaN included) the scales are
  built and every datum gets a dot, whose coordinates are degenerate: a scale whose
  domain reaches from a finite number to infinity maps infinity to NaN, and a scale maps
  NaN to \<^verbatim>\<open>undefined\<close>. For the data \<^verbatim>\<open>[{x:0,y:0},{x:Infinity,y:10}]\<close> on the example's
  chart the second dot is at \<open>(NaN, 0)\<close>.
\<close>

theorem malformed_input_not_handled:
  "(data p = [] \<longrightarrow>
      (scales lib p = Inl TypeError) =
        (Option.bind (xAxis p) visibleX = None \<or> Option.bind (yAxis p) visibleY = None))
   \<and> (scales lib p = Inl TypeError \<longrightarrow>
        dotData lib p = Inl TypeError \<and> xAxisTicks lib p = Inl TypeError
        \<and> yAxisTicks lib p = Inl TypeError)
   \<and> (data p \<noteq> [] \<longrightarrow>
        (\<exists>xs ys. scales lib p = Inr (xs, ys)
           \<and> dotData lib p =
               Inr (map (\<lambda>d. (scale_apply xs (datum_x d), scale_apply ys (datum_y d))) (data p))
           \<and> xAxisTicks lib p = Inr (toXAxisTicks lib p xs ys (xTicks lib p xs))
           \<and> yAxisTicks lib p = Inr (toYAxisTicks lib p xs ys (yTicks lib p ys))))
   \<and> (\<forall>xs ys v. scales lib p = Inr (xs, ys) \<and> fst (scale_domain xs) = snd (scale_domain xs) \<longrightarrow>
        scale_apply xs v = (chartLeftPixel p + chartRightPixel p) / 2)
   \<and> (\<forall>xs ys v. scales lib p = Inr (xs, ys) \<and> fst (scale_domain ys) = snd (scale_domain ys) \<longrightarrow>
        scale_apply ys v = (chartBottomPixel p + chartTopPixel p) / 2)
   \<and> (js_data q = [] \<longrightarrow>
        (js_scales q = Inl TypeError) = (js_visibleX q = None \<or> js_visibleY q = None))
   \<and> (js_scales q = Inl TypeError \<longrightarrow> js_dotData q = Inl TypeError)
   \<and> (js_data q \<noteq> [] \<longrightarrow>
        (\<exists>xs ys. js_scales q = Inr (xs, ys)
           \<and> js_dotData q =
               Inr (map (\<lambda>d. (js_scale_apply xs (js_x d), js_scale_apply ys (js_y d)))
                      (js_data q))))
   \<and> (\<forall>a r0 r1.
        js_scale_apply
          \<lparr>js_domain = (Finite a, PosInfinity), js_range = (Finite r0, Finite r1)\<rparr>
          PosInfinity = Some NaN)
   \<and> (\<forall>s. js_scale_apply s NaN = None)
   \<and> js_dotData infinite_props =
       Inr [(Some (Finite 0), Some (Finite 100)), (Some NaN, Some (Finite 0))]"
proof -
  have empty: "(scales lib p = Inl TypeError) =
        (Option.bind (xAxis p) visibleX = None \<or> Option.bind (yAxis p) visibleY = None)"
    if "data p = []"
    using that by (simp add: scales_error_iff xDomain_error_iff yDomain_error_iff)
  have propagated: "dotData lib p = Inl TypeError \<and> xAxisTicks lib p = Inl TypeError
        \<and> yAxisTicks lib p = Inl TypeError"
    if "scales lib p = Inl TypeError"
    using that by (simp add: dotData_def xAxisTicks_def yAxisTicks_def)
  have nonempty: "\<exists>xs ys. scales lib p = Inr (xs, ys)
           \<and> dotData lib p =
               Inr (map (\<lambda>d. (scale_apply xs (datum_x d), scale_apply ys (datum_y d))) (data p))
           \<and> xAxisTicks lib p = Inr (toXAxisTicks lib p xs ys (xTicks lib p xs))
           \<and> yAxisTicks lib p = Inr (toYAxisTicks lib p xs ys (yTicks lib p ys))"
    if "data p \<noteq> []"
  proof -
    from that have "scales lib p \<noteq> Inl TypeError"
      by (simp add: scales_error_iff xDomain_error_iff yDomain_error_iff)
    with scales_total [of lib p] obtain xs ys where s: "scales lib p = Inr (xs, ys)" by blast
    show ?thesis
      by (rule exI, rule exI, intro conjI)
        (rule s, rule dotData_Inr [OF s], rule xAxisTicks_of_scales [OF s],
          rule yAxisTicks_of_scales [OF s])
  qed
  have collapsed_x: "scale_apply xs v = (chartLeftPixel p + chartRightPixel p) / 2"
    if "scales lib p = Inr (xs, ys) \<and> fst (scale_domain xs) = snd (scale_domain xs)" for xs ys v
  proof -
    from that have s: "scales lib p = Inr (xs, ys)"
      and c: "fst (scale_domain xs) = snd (scale_domain xs)" by simp_all
    from scales_shape [OF s] scale_apply_collapsed [OF c, of v] show ?thesis by simp
  qed
  have collapsed_y: "scale_apply ys v = (chartBottomPixel p + chartTopPixel p) / 2"
    if "scales lib p = Inr (xs, ys) \<and> fst (scale_domain ys) = snd (scale_domain ys)" for xs ys v
  proof -
    from that have s: "scales lib p = Inr (xs, ys)"
      and c: "fst (scale_domain ys) = snd (scale_domain ys)" by simp_all
    from scales_shape [OF s] scale_apply_collapsed [OF c, of v] show ?thesis by simp
  qed
  have js_empty: "(js_scales q = Inl TypeError) = (js_visibleX q = None \<or> js_visibleY q = None)"
    if "js_data q = []"
    using that by (simp add: js_scales_error_iff js_xDomain_error_iff js_yDomain_error_iff)
  have js_propagated: "js_dotData q = Inl TypeError" if "js_scales q = Inl TypeError"
    using that by (simp add: js_dotData_def)
  show ?thesis
  proof (intro conjI allI impI)
    show "(scales lib p = Inl TypeError) =
        (Option.bind (xAxis p) visibleX = None \<or> Option.bind (yAxis p) visibleY = None)"
      if "data p = []" using that by (rule empty)
    show "dotData lib p = Inl TypeError" "xAxisTicks lib p = Inl TypeError"
      "yAxisTicks lib p = Inl TypeError" if "scales lib p = Inl TypeError"
      using propagated [OF that] by simp_all
    show "\<exists>xs ys. scales lib p = Inr (xs, ys)
           \<and> dotData lib p =
               Inr (map (\<lambda>d. (scale_apply xs (datum_x d), scale_apply ys (datum_y d))) (data p))
           \<and> xAxisTicks lib p = Inr (toXAxisTicks lib p xs ys (xTicks lib p xs))
           \<and> yAxisTicks lib p = Inr (toYAxisTicks lib p xs ys (yTicks lib p ys))"
      if "data p \<noteq> []" using that by (rule nonempty)
    show "scale_apply xs v = (chartLeftPixel p + chartRightPixel p) / 2"
      if "scales lib p = Inr (xs, ys) \<and> fst (scale_domain xs) = snd (scale_domain xs)"
      for xs ys v using that by (rule collapsed_x)
    show "scale_apply ys v = (chartBottomPixel p + chartTopPixel p) / 2"
      if "scales lib p = Inr (xs, ys) \<and> fst (scale_domain ys) = snd (scale_domain ys)"
      for xs ys v using that by (rule collapsed_y)
    show "(js_scales q = Inl TypeError) = (js_visibleX q = None \<or> js_visibleY q = None)"
      if "js_data q = []" using that by (rule js_empty)
    show "js_dotData q = Inl TypeError" if "js_scales q = Inl TypeError"
      using that by (rule js_propagated)
    show "\<exists>xs ys. js_scales q = Inr (xs, ys)
           \<and> js_dotData q =
               Inr (map (\<lambda>d. (js_scale_apply xs (js_x d), js_scale_apply ys (js_y d)))
                      (js_data q))"
      if "js_data q \<noteq> []" using that by (rule js_nonempty_produces)
    show "js_scale_apply
          \<lparr>js_domain = (Finite a, PosInfinity), js_range = (Finite r0, Finite r1)\<rparr>
          PosInfinity = Some NaN" for a r0 r1
      by (rule js_scale_apply_infinite)
    show "js_scale_apply s NaN = None" for s by (rule js_scale_apply_NaN)
    show "js_dotData infinite_props =
       Inr [(Some (Finite 0), Some (Finite 100)), (Some NaN, Some (Finite 0))]"
      by (rule infinite_dots)
  qed
qed

text \<open>
  Claim C9 on concrete inputs: the example without data raises everywhere; a single data
  point \<open>(3, 4)\<close> gives the domains \<open>[3, 3]\<close> and \<open>[4, 4]\<close>, its dot is at the centre
  \<open>(50, 50)\<close> of the chart, so is the image of any other value, and two ticks are
  computed on each axis; the data with an infinite x value give the scales with the x
  domain from 0 to infinity and the two dots, the second at \<open>(NaN, 0)\<close>; the same chart
  without data raises.
\<close>

theorem malformed_input_not_handled_witness:
  "scales sample_d3 (example_props\<lparr>data := []\<rparr>) = Inl TypeError
   \<and> dotData sample_d3 (example_props\<lparr>data := []\<rparr>) = Inl TypeError
   \<and> xAxisTicks sample_d3 (example_props\<lparr>data := []\<rparr>) = Inl TypeError
   \<and> yAxisTicks sample_d3 (example_props\<lparr>data := []\<rparr>) = Inl TypeError
   \<and> scales sample_d3 single_props =
       Inr (\<lparr>scale_kind = ScaleLinear, scale_domain = (3, 3), scale_range = (0, 100)\<rparr>,
            \<lparr>scale_kind = ScaleLinear, scale_domain = (4, 4), scale_range = (100, 0)\<rparr>)
   \<and> dotData sample_d3 single_props = Inr [(50, 50)]
   \<and> (\<exists>xts yts. xAxisTicks sample_d3 single_props = Inr xts \<and> length xts = 2
         \<and> yAxisTicks sample_d3 single_props = Inr yts \<and> length yts = 2)
   \<and> scale_apply \<lparr>scale_kind = ScaleLinear, scale_domain = (3, 3), scale_range = (0, 100)\<rparr> (Num 7)
       = (chartLeftPixel single_props + chartRightPixel single_props) / 2
   \<and> scale_apply \<lparr>scale_kind = ScaleLinear, scale_domain = (4, 4), scale_range = (100, 0)\<rparr> (Num 7)
       = (chartBottomPixel single_props + chartTopPixel single_props) / 2
   \<and> js_scales (infinite_props\<lparr>js_data := []\<rparr>) = Inl TypeError
   \<and> js_dotData (infinite_props\<lparr>js_data := []\<rparr>) = Inl TypeError
   \<and> js_scales infinite_props =
       Inr (\<lparr>js_domain = (Finite 0, PosInfinity), js_range = (Finite 0, Finite 100)\<rparr>,
            \<lparr>js_domain = (Finite 0, Finite 10), js_range = (Finite 100, Finite 0)\<rparr>)
   \<and> js_dotData infinite_props =
       Inr [(Some (Finite 0), Some (Finite 100)), (Some NaN, Some (Finite 0))]"
proof -
  let ?sx = "\<lparr>scale_kind = ScaleLinear, scale_domain = (3, 3), scale_range = (0, 100)\<rparr>"
  let ?sy = "\<lparr>scale_kind = ScaleLinear, scale_domain = (4, 4), scale_range = (100, 0)\<rparr>"
  let ?jx = "\<lparr>js_domain = (Finite 0, PosInfinity), js_range = (Finite 0, Finite 100)\<rparr>"
  let ?jy = "\<lparr>js_domain = (Finite 0, Finite 10), js_range = (Finite 100, Finite 0)\<rparr>"
  note empty = malformed_input_not_handled
    [of "example_props\<lparr>data := []\<rparr>" sample_d3 "infinite_props\<lparr>js_data := []\<rparr>"]
  note single = malformed_input_not_handled [of single_props sample_d3 infinite_props]
  have e: "data (example_props\<lparr>data := []\<rparr>) = []"
    "Option.bind (xAxis (example_props\<lparr>data := []\<rparr>)) visibleX = None"
    by (simp_all add: example_props_def)
  from empty e have e1: "scales sample_d3 (example_props\<lparr>data := []\<rparr>) = Inl TypeError"
    by blast
  with empty have e2: "dotData sample_d3 (example_props\<lparr>data := []\<rparr>) = Inl TypeError"
    "xAxisTicks sample_d3 (example_props\<lparr>data := []\<rparr>) = Inl TypeError"
    "yAxisTicks sample_d3 (example_props\<lparr>data := []\<rparr>) = Inl TypeError"
    by blast+
  have s: "scales sample_d3 single_props = Inr (?sx, ?sy)"
    by (simp add: single_props_def example_props_def scale_building chart_pixels)
  have ne: "data single_props \<noteq> []" by (simp add: single_props_def)
  from single ne obtain xs ys where
    xy: "scales sample_d3 single_props = Inr (xs, ys)" and
    dots: "dotData sample_d3 single_props =
       Inr (map (\<lambda>d. (scale_apply xs (datum_x d), scale_apply ys (datum_y d))) (data single_props))"
    and xt: "xAxisTicks sample_d3 single_props =
       Inr (toXAxisTicks sample_d3 single_props xs ys (xTicks sample_d3 single_props xs))"
    and yt: "yAxisTicks sample_d3 single_props =
       Inr (toYAxisTicks sample_d3 single_props xs ys (yTicks sample_d3 single_props ys))"
    by blast
  from xy s have xs: "xs = ?sx" and ys: "ys = ?sy" by simp_all
  from dots have d: "dotData sample_d3 single_props = Inr [(50, 50)]"
    by (simp add: xs ys single_props_def scale_maps)
  have "length (xTicks sample_d3 single_props xs) = 2"
    and "length (yTicks sample_d3 single_props ys) = 2"
    by (simp_all add: xTicks_def yTicks_def xTickCount_def yTickCount_def sample_d3_def
        single_props_def example_props_def)
  with xt yt have t: "\<exists>xts yts. xAxisTicks sample_d3 single_props = Inr xts \<and> length xts = 2
         \<and> yAxisTicks sample_d3 single_props = Inr yts \<and> length yts = 2"
    by simp
  from single s have m:
    "scale_apply ?sx (Num 7) = (chartLeftPixel single_props + chartRightPixel single_props) / 2"
    "scale_apply ?sy (Num 7) = (chartBottomPixel single_props + chartTopPixel single_props) / 2"
    by simp_all
  have je: "js_data (infinite_props\<lparr>js_data := []\<rparr>) = []"
    "js_visibleX (infinite_props\<lparr>js_data := []\<rparr>) = None"
    by (simp_all add: infinite_props_def)
  from empty je have j1: "js_scales (infinite_props\<lparr>js_data := []\<rparr>) = Inl TypeError"
    by blast
  with empty have j2: "js_dotData (infinite_props\<lparr>js_data := []\<rparr>) = Inl TypeError"
    by blast
  have js: "js_scales infinite_props = Inr (?jx, ?jy)"
    by (simp add: infinite_props_def js_building Let_def)
  from single have j3: "js_dotData infinite_props =
       Inr [(Some (Finite 0), Some (Finite 100)), (Some NaN, Some (Finite 0))]"
    by blast
  show ?thesis
    by (intro conjI)
      (rule e1, rule e2(1), rule e2(2), rule e2(3), rule s, rule d, rule t, rule m(1),
        rule m(2), rule j1, rule j2, rule js, rule j3)
qed

section \<open>Numeric label positions\<close>



end
